theory Spec2Isabelle
  imports Main "HOL-Library.Multiset"
begin

text \<open>
  A verification of the VISOR custody monitor (\<open>server.js\<close>): the timeline builder
  \<open>processCustodyData\<close>, the extractor \<open>extractCustodyDataFromHTML\<close> and the
  \<open>/api/custody-history/:iicid\<close> handlers.
\<close>

section \<open>Data model\<close>

text \<open>
  The custody records are the objects of a JSON array delivered by the remote source. Of
  each object the code reads four properties. A property holds a JSON string, as the data
  model of the specification has names and dates, or one of the values that JavaScript
  takes for false: it is missing (reading it gives undefined), or it is the JSON value
  null, false or 0 (of either sign). With the empty string these are all the falsy
  values that a parsed JSON object can hold. A truthy value that is not a string (true, a number other than 0,
  an array, an object) is outside the data model and outside this model.
\<close>

datatype jsval = JUndefined | JNull | JFalse | JZero | JStr string

text \<open>JavaScript truthiness: of the values above only a non-empty string is truthy.\<close>

fun truthy :: "jsval \<Rightarrow> bool" where
  "truthy (JStr s) = (s \<noteq> [])"
| "truthy JNull = False"
| "truthy JUndefined = False"
| "truthy JFalse = False"
| "truthy JZero = False"

record rawRecord =
  idoc_name :: jsval
  idoc_facilityid :: jsval
  savin_intakedate :: jsval
  idoc_releasedate :: jsval

text \<open>
  The two shapes of object pushed on \<open>processedRecords\<close>: \<open>type: 'CUSTODY'\<close> and
  \<open>type: 'OUT_OF_CUSTODY'\<close>. The flag \<open>currentlyInCustody\<close> of a custody entry is the
  selector \<open>entryInCustody\<close>, since the summary object has a field of the same name.
\<close>

datatype entry =
    isCustody: CUSTODY (offenderNumber: jsval) (facility: jsval) (intakeDate: jsval)
            (releaseDate: jsval) (entryInCustody: bool)
  | isGap: OUT_OF_CUSTODY (durationMs: int) (days: int) (hours: int) (minutes: int)
            (startDate: jsval) (endDate: jsval)

record timeline =
  iicId :: string
  totalRecords :: nat
  records :: "entry list"
  retrievedAt :: string
  currentlyInCustody :: bool

section \<open>Dates and numbers\<close>

text \<open>
  A JavaScript number that holds a time value or a difference of time values is an integer
  or NaN: \<open>None\<close> is NaN. The parameter \<open>pd\<close> of the functions below is the engine's
  \<open>Date.parse\<close> (NaN for a string it does not recognise). Time values are at most
  8.64e15 in magnitude, so they and the quotients computed from their differences are
  exact in double precision whenever the two dates are less than 2^53 ms apart.
\<close>

type_synonym jsnum = "int option"

definition timeClip :: "int \<Rightarrow> jsnum" where
  "timeClip t = (if \<bar>t\<bar> \<le> 8640000000000000 then Some t else None)"

text \<open>
  \<open>new Date(v)\<close>, read back as a number: a string is parsed, undefined gives NaN, and
  null, false and 0 are converted to the number 0.
\<close>

fun newDate :: "(string \<Rightarrow> jsnum) \<Rightarrow> jsval \<Rightarrow> jsnum" where
  "newDate pd (JStr s) = (case pd s of None \<Rightarrow> None | Some t \<Rightarrow> timeClip t)"
| "newDate pd JNull = Some 0"
| "newDate pd JUndefined = None"
| "newDate pd JFalse = Some 0"
| "newDate pd JZero = Some 0"

text \<open>\<open>new Date(v || 0)\<close>: a falsy \<open>v\<close> is replaced by the number 0, the epoch.\<close>

definition newDateOrZero :: "(string \<Rightarrow> jsnum) \<Rightarrow> jsval \<Rightarrow> jsnum" where
  "newDateOrZero pd v = (if truthy v then newDate pd v else timeClip 0)"

text \<open>\<open>a - b\<close> on numbers: NaN when either side is NaN.\<close>

fun jsMinus :: "jsnum \<Rightarrow> jsnum \<Rightarrow> jsnum" where
  "jsMinus (Some a) (Some b) = Some (a - b)"
| "jsMinus _ _ = None"

text \<open>\<open>a % b\<close> on integers: the remainder has the sign of the dividend.\<close>

definition jsRem :: "int \<Rightarrow> int \<Rightarrow> int" where
  "jsRem a b = sgn a * (\<bar>a\<bar> mod \<bar>b\<bar>)"

text \<open>\<open>Math.floor(a / b)\<close> for integers \<open>a\<close> and \<open>b > 0\<close>.\<close>

definition floorDiv :: "int \<Rightarrow> int \<Rightarrow> int" where
  "floorDiv a b = a div b"

section \<open>The timeline builder: \<open>processCustodyData\<close>\<close>

subsection \<open>Sorting\<close>

text \<open>The comparator handed to \<open>custodyData.sort\<close>: \<open>dateA - dateB\<close>.\<close>

definition compareFn :: "(string \<Rightarrow> jsnum) \<Rightarrow> rawRecord \<Rightarrow> rawRecord \<Rightarrow> jsnum" where
  "compareFn pd a b =
     (let dateA = newDateOrZero pd (savin_intakedate a);
          dateB = newDateOrZero pd (savin_intakedate b)
      in jsMinus dateA dateB)"

text \<open>
  \<open>Array.prototype.sort\<close> reads a comparator result of NaN as +0, and is stable. When
  no comparison is NaN the comparator above is a consistent ordering (the difference of
  two integer keys), and the language fixes the result: the stable ascending arrangement,
  which the insertion sort below computes. When a comparison is NaN, which happens exactly
  when a truthy intake date does not give a time value, the comparator is inconsistent
  and the order is the choice of the engine; V8, for one, can leave the records in an
  order that differs from the one computed here. The sort is therefore a model of the
  code only for lists whose intake dates parse (\<open>intakeParses\<close> below), and every
  statement about the sorted order assumes that.
\<close>

definition sortCompare :: "('a \<Rightarrow> 'a \<Rightarrow> jsnum) \<Rightarrow> 'a \<Rightarrow> 'a \<Rightarrow> int" where
  "sortCompare cmp a b = (case cmp a b of None \<Rightarrow> 0 | Some v \<Rightarrow> v)"

fun placeInto :: "('a \<Rightarrow> 'a \<Rightarrow> jsnum) \<Rightarrow> 'a \<Rightarrow> 'a list \<Rightarrow> 'a list" where
  "placeInto cmp a [] = [a]"
| "placeInto cmp a (b # bs) =
     (if sortCompare cmp a b \<le> 0 then a # b # bs else b # placeInto cmp a bs)"

fun arraySort :: "('a \<Rightarrow> 'a \<Rightarrow> jsnum) \<Rightarrow> 'a list \<Rightarrow> 'a list" where
  "arraySort cmp [] = []"
| "arraySort cmp (a # as) = placeInto cmp a (arraySort cmp as)"

subsection \<open>The loop over the sorted records\<close>

text \<open>One pass of the body of \<open>for (let i = 0; i < custodyData.length; i++)\<close>.\<close>

definition loopBody ::
  "(string \<Rightarrow> jsnum) \<Rightarrow> rawRecord list \<Rightarrow> nat \<Rightarrow> entry list \<Rightarrow> entry list" where
  "loopBody pd custodyData i processedRecords =
     (let record = custodyData ! i;
          pushed = processedRecords @
            [CUSTODY (idoc_name record) (idoc_facilityid record) (savin_intakedate record)
               (idoc_releasedate record) (\<not> truthy (idoc_releasedate record))]
      in if int i < int (length custodyData) - 1 \<and> truthy (idoc_releasedate record) then
           (let nextRecord = custodyData ! (i + 1) in
            if truthy (savin_intakedate nextRecord) then
              (let releaseTime = newDate pd (idoc_releasedate record);
                   nextIntakeTime = newDate pd (savin_intakedate nextRecord)
               in case jsMinus nextIntakeTime releaseTime of
                    None \<Rightarrow> pushed
                  | Some gapMs \<Rightarrow>
                      if gapMs > 0 then
                        pushed @
                          [OUT_OF_CUSTODY gapMs
                             (floorDiv gapMs (1000 * 60 * 60 * 24))
                             (floorDiv (jsRem gapMs (1000 * 60 * 60 * 24)) (1000 * 60 * 60))
                             (floorDiv (jsRem gapMs (1000 * 60 * 60)) (1000 * 60))
                             (idoc_releasedate record) (savin_intakedate nextRecord)]
                      else pushed)
            else pushed)
         else pushed)"

function processLoop ::
  "(string \<Rightarrow> jsnum) \<Rightarrow> rawRecord list \<Rightarrow> nat \<Rightarrow> entry list \<Rightarrow> entry list" where
  "processLoop pd custodyData i processedRecords =
     (if i < length custodyData
      then processLoop pd custodyData (i + 1) (loopBody pd custodyData i processedRecords)
      else processedRecords)"
  by pat_completeness auto
termination
  by (relation "measure (\<lambda>(pd, custodyData, i, processedRecords). length custodyData - i)") auto

declare processLoop.simps [simp del]

text \<open>
  \<open>processCustodyData(iicId, custodyData)\<close>; \<open>now\<close> is the text of
  \<open>new Date().toISOString()\<close> at the time of the call.
\<close>

definition processCustodyData ::
  "(string \<Rightarrow> jsnum) \<Rightarrow> string \<Rightarrow> string \<Rightarrow> rawRecord list \<Rightarrow> timeline" where
  "processCustodyData pd now iicid custodyData0 =
     (let custodyData = arraySort (compareFn pd) custodyData0;
          processedRecords = processLoop pd custodyData 0 []
      in \<lparr> iicId = iicid,
           totalRecords = length custodyData,
           records = processedRecords,
           retrievedAt = now,
           currentlyInCustody =
             (length custodyData > 0 \<and>
              \<not> truthy (idoc_releasedate (custodyData ! (length custodyData - 1)))) \<rparr>)"


subsection \<open>The loop, described by recursion on the sorted list\<close>

text \<open>
  \<open>custodyOf\<close> is the custody entry pushed for a record, \<open>gapOf\<close> the gap entries (none
  or one) pushed between a record and its successor, and \<open>timelineOf\<close> the entries for a
  whole list. The loop is shown below to compute \<open>timelineOf\<close>.
\<close>

definition custodyOf :: "rawRecord \<Rightarrow> entry" where
  "custodyOf r = CUSTODY (idoc_name r) (idoc_facilityid r) (savin_intakedate r)
                   (idoc_releasedate r) (\<not> truthy (idoc_releasedate r))"

text \<open>\<open>nextIntakeTime - releaseTime\<close> for a record and its successor.\<close>

definition gapValue :: "(string \<Rightarrow> jsnum) \<Rightarrow> rawRecord \<Rightarrow> rawRecord \<Rightarrow> jsnum" where
  "gapValue pd r nxt =
     jsMinus (newDate pd (savin_intakedate nxt)) (newDate pd (idoc_releasedate r))"

definition gapOf :: "(string \<Rightarrow> jsnum) \<Rightarrow> rawRecord \<Rightarrow> rawRecord \<Rightarrow> entry list" where
  "gapOf pd r nxt =
     (if truthy (idoc_releasedate r) \<and> truthy (savin_intakedate nxt) then
        (case gapValue pd r nxt of
           None \<Rightarrow> []
         | Some g \<Rightarrow>
             if 0 < g then
               [OUT_OF_CUSTODY g (g div 86400000) (g mod 86400000 div 3600000)
                  (g mod 3600000 div 60000) (idoc_releasedate r) (savin_intakedate nxt)]
             else [])
      else [])"

fun timelineOf :: "(string \<Rightarrow> jsnum) \<Rightarrow> rawRecord list \<Rightarrow> entry list" where
  "timelineOf pd [] = []"
| "timelineOf pd [r] = [custodyOf r]"
| "timelineOf pd (r # nxt # rs) = custodyOf r # gapOf pd r nxt @ timelineOf pd (nxt # rs)"

subsection \<open>Notions used to state the properties of the timeline\<close>

text \<open>
  A date is given: the property holds a string. A missing property, null, false and 0 are
  no date.
\<close>

fun hasDate :: "jsval \<Rightarrow> bool" where
  "hasDate (JStr s) = True"
| "hasDate JUndefined = False"
| "hasDate JNull = False"
| "hasDate JFalse = False"
| "hasDate JZero = False"

text \<open>
  Between record \<open>i\<close> and record \<open>i + 1\<close> of the list there is a gap of positive duration:
  record \<open>i\<close> has a release date, record \<open>i + 1\<close> exists and has an intake date, and the
  intake is strictly later than the release.
\<close>

definition gapFollows :: "(string \<Rightarrow> jsnum) \<Rightarrow> rawRecord list \<Rightarrow> nat \<Rightarrow> bool" where
  "gapFollows pd cs i =
     (Suc i < length cs \<and> hasDate (idoc_releasedate (cs ! i)) \<and>
      hasDate (savin_intakedate (cs ! Suc i)) \<and>
      (case gapValue pd (cs ! i) (cs ! Suc i) of None \<Rightarrow> False | Some g \<Rightarrow> 0 < g))"

text \<open>
  The shape custody, optional gap, custody, ..., custody: a list that starts and ends with
  a custody entry, in which every gap entry stands between two custody entries, starts at
  the release date of the one before it and ends at the intake date of the one after it.
\<close>

fun alternating :: "entry list \<Rightarrow> bool" where
  "alternating [] = False"
| "alternating [e] = isCustody e"
| "alternating (e # g # es) =
     (isCustody e \<and>
      (if isGap g
       then startDate g = releaseDate e \<and> es \<noteq> [] \<and> isCustody (hd es) \<and>
            endDate g = intakeDate (hd es) \<and> alternating es
       else alternating (g # es)))"

text \<open>
  The sort key of the claim: the time value of the intake date, and the epoch (zero) for a
  record without intake date.
\<close>

definition intakeKey :: "(string \<Rightarrow> jsnum) \<Rightarrow> rawRecord \<Rightarrow> int" where
  "intakeKey pd r =
     (if hasDate (savin_intakedate r)
      then (case newDate pd (savin_intakedate r) of None \<Rightarrow> 0 | Some t \<Rightarrow> t)
      else 0)"

text \<open>The intake date of a record, when given, is a non-empty string that the engine parses.\<close>

definition intakeParses :: "(string \<Rightarrow> jsnum) \<Rightarrow> rawRecord \<Rightarrow> bool" where
  "intakeParses pd r =
     (hasDate (savin_intakedate r) \<longrightarrow>
        truthy (savin_intakedate r) \<and> newDate pd (savin_intakedate r) \<noteq> None)"


section \<open>A date parser for the worked examples\<close>

text \<open>
  \<open>isoParse\<close> computes the time value that ECMAScript prescribes for the two UTC forms
  \<open>YYYY-MM-DD\<close> and \<open>YYYY-MM-DDTHH:mm:ssZ\<close> of its date-time string format, and NaN for
  every other string. It stands for \<open>Date.parse\<close> in the worked examples, all of which
  use existing dates in these two forms; the general theorems hold for every parser.
\<close>

definition digitOf :: "char \<Rightarrow> nat option" where
  "digitOf c =
     (let n = (of_char c :: nat) in if 48 \<le> n \<and> n \<le> 57 then Some (n - 48) else None)"

fun digitsValue :: "string \<Rightarrow> nat option" where
  "digitsValue [] = None"
| "digitsValue cs =
     foldl (\<lambda>acc c. case (acc, digitOf c) of
                       (Some a, Some d) \<Rightarrow> Some (10 * a + d)
                     | _ \<Rightarrow> None)
       (Some 0) cs"

text \<open>Days from 1970-01-01 to the given day of the proleptic Gregorian calendar.\<close>

definition daysFromCivil :: "int \<Rightarrow> int \<Rightarrow> int \<Rightarrow> int" where
  "daysFromCivil y m d =
     (let y' = (if m \<le> 2 then y - 1 else y);
          era = y' div 400;
          yoe = y' - era * 400;
          mp = (m + 9) mod 12;
          doy = (153 * mp + 2) div 5 + d - 1;
          doe = yoe * 365 + yoe div 4 - yoe div 100 + doy
      in era * 146097 + doe - 719468)"

definition daysInMonth :: "int \<Rightarrow> int \<Rightarrow> int" where
  "daysInMonth y m =
     (if m = 2 then (if y mod 4 = 0 \<and> (y mod 100 \<noteq> 0 \<or> y mod 400 = 0) then 29 else 28)
      else if m = 4 \<or> m = 6 \<or> m = 9 \<or> m = 11 then 30 else 31)"

definition isoDay :: "string \<Rightarrow> jsnum" where
  "isoDay s =
     (if length s = 10 \<and> s ! 4 = CHR ''-'' \<and> s ! 7 = CHR ''-'' then
        (case (digitsValue (take 4 s), digitsValue (take 2 (drop 5 s)), digitsValue (drop 8 s)) of
           (Some y, Some m, Some d) \<Rightarrow>
             if 1 \<le> m \<and> m \<le> 12 \<and> 1 \<le> d \<and> int d \<le> daysInMonth (int y) (int m)
             then Some (daysFromCivil (int y) (int m) (int d) * 86400000) else None
         | _ \<Rightarrow> None)
      else None)"

definition isoTime :: "string \<Rightarrow> jsnum" where
  "isoTime s =
     (if length s = 8 \<and> s ! 2 = CHR '':'' \<and> s ! 5 = CHR '':'' then
        (case (digitsValue (take 2 s), digitsValue (take 2 (drop 3 s)), digitsValue (drop 6 s)) of
           (Some h, Some m, Some sec) \<Rightarrow>
             if h \<le> 23 \<and> m \<le> 59 \<and> sec \<le> 59
             then Some (int h * 3600000 + int m * 60000 + int sec * 1000) else None
         | _ \<Rightarrow> None)
      else None)"

definition isoParse :: "string \<Rightarrow> jsnum" where
  "isoParse s =
     (if length s = 10 then isoDay s
      else if length s = 20 \<and> s ! 10 = CHR ''T'' \<and> s ! 19 = CHR ''Z'' then
        (case (isoDay (take 10 s), isoTime (take 8 (drop 11 s))) of
           (Some d, Some t) \<Rightarrow> Some (d + t)
         | _ \<Rightarrow> None)
      else None)"

subsection \<open>Example records\<close>

text \<open>The scenario of the specification: A from 2020-01-01 to 2020-02-01, B from 2020-03-01.\<close>

definition recA :: rawRecord where
  "recA = \<lparr> idoc_name = JStr ''A'', idoc_facilityid = JStr ''F1'',
            savin_intakedate = JStr ''2020-01-01'', idoc_releasedate = JStr ''2020-02-01'' \<rparr>"

definition recB :: rawRecord where
  "recB = \<lparr> idoc_name = JStr ''B'', idoc_facilityid = JStr ''F2'',
            savin_intakedate = JStr ''2020-03-01'', idoc_releasedate = JNull \<rparr>"



text \<open>A record whose release date is the empty string, and one whose release date is 0.\<close>

definition recE :: rawRecord where
  "recE = \<lparr> idoc_name = JStr ''E'', idoc_facilityid = JStr ''F3'',
            savin_intakedate = JStr ''2020-03-01'', idoc_releasedate = JStr [] \<rparr>"

definition recZ :: rawRecord where
  "recZ = \<lparr> idoc_name = JStr ''Z'', idoc_facilityid = JStr ''F3'',
            savin_intakedate = JStr ''2020-01-15'', idoc_releasedate = JZero \<rparr>"

text \<open>A record without intake date, and a record with the intake date of \<open>recA\<close>.\<close>

definition recF :: rawRecord where
  "recF = \<lparr> idoc_name = JStr ''F'', idoc_facilityid = JStr ''F1'',
            savin_intakedate = JNull, idoc_releasedate = JStr ''2020-02-01'' \<rparr>"

definition recG :: rawRecord where
  "recG = \<lparr> idoc_name = JStr ''G'', idoc_facilityid = JStr ''F2'',
            savin_intakedate = JStr ''2020-01-01'', idoc_releasedate = JStr ''2020-01-15'' \<rparr>"

text \<open>A record taken in on the day before the epoch.\<close>

definition recOld :: rawRecord where
  "recOld = \<lparr> idoc_name = JStr ''O'', idoc_facilityid = JStr ''F1'',
              savin_intakedate = JStr ''1969-12-31'', idoc_releasedate = JStr ''1970-01-02'' \<rparr>"

section \<open>The extractor and the endpoint \<open>/api/custody-history/:iicid\<close>\<close>

subsection \<open>Validation of the identifier\<close>

text \<open>
  \<open>/^[a-f0-9-]{36}$/i.test(iicId)\<close>: exactly 36 characters, each in one of the ranges
  \<open>a-f\<close>, \<open>0-9\<close>, or a hyphen, letters in either case.
\<close>

definition idChar :: "char \<Rightarrow> bool" where
  "idChar c =
     (let n = (of_char c :: nat)
      in (97 \<le> n \<and> n \<le> 102) \<or> (65 \<le> n \<and> n \<le> 70) \<or> (48 \<le> n \<and> n \<le> 57) \<or> n = 45)"

definition validIicId :: "string \<Rightarrow> bool" where
  "validIicId s = (length s = 36 \<and> list_all idChar s)"

text \<open>
  The pattern in the words of the specification: 36 characters, each a hexadecimal digit
  of either case or a hyphen.
\<close>

definition matchesIdPattern :: "string \<Rightarrow> bool" where
  "matchesIdPattern s =
     (length s = 36 \<and> list_all (\<lambda>c. c \<in> set ''0123456789abcdefABCDEF-'') s)"

subsection \<open>The remote source and the engine\<close>

text \<open>
  A call of \<open>fetch\<close>, with the reading of the body that follows it, is rejected
  (network failure, with the error's message) or answers with \<open>ok\<close>, \<open>status\<close> and a
  body.
\<close>

datatype 'a fetched = Rejected string | Reply bool nat 'a

text \<open>
  An element of an array parsed from JSON, as the code uses it: an object, of which it
  reads the four properties, or null, on which reading a property throws a TypeError
  (\<open>None\<close>). An element of another kind (a number, a string, a boolean, an array) has
  none of the four properties and is an object without them.
\<close>

type_synonym element = "rawRecord option"

text \<open>
  A value that the code takes for the array of records after testing it for truthiness
  only: a falsy value (a missing property, null, false, 0, the empty string), an array,
  or a truthy value that is not an array (an object, a non-empty string, a number,
  true). Such a value has no method \<open>sort\<close>; the flag tells whether its \<open>length\<close>
  property is the number 0, which an object can have.
\<close>

datatype 'a arrayValue = Falsy | NotArray bool | Array "'a list"

text \<open>
  Of a field response the code reads \<open>controlDataId\<close>, which it compares with the id of
  the custody grid (a value that is not a string equals no id and is the empty string
  here), and \<open>gridResponse\<close>: \<open>None\<close> when that is falsy, and otherwise the value that
  reading its property \<open>data\<close> gives. An element of \<open>fieldResponses\<close> that is null is
  \<open>None\<close>.
\<close>

record fieldResponse =
  controlDataId :: string
  gridResponse :: "element arrayValue option"

text \<open>
  The body of the API answer as \<open>apiResponse.json()\<close> gives it: not JSON (the promise is
  rejected), the JSON value null, or another value, of which the code reads
  \<open>fieldResponses\<close> (a value that is not an object has none).
\<close>

datatype apiBody = NotJson string | JsonNull | ApiData "fieldResponse option arrayValue"

text \<open>
  The regular expressions of the source, by name.
  \<^item> The four entries of \<open>patterns\<close> in \<open>extractCustodyDataFromHTML\<close>, in their
    order: \<open>GridResponseData\<close> ("Original pattern"), \<open>DataArrayWithName\<close> ("Look for
    data array with idoc_name"), \<open>FieldResponsesData\<close> ("Look for fieldResponses") and
    \<open>EscapedValueData\<close> ("Escaped JSON in value attributes").
  \<^item> The two patterns of the handler that builds the timeline inline, the first program
    of \<open>server.js\<close>: \<open>FieldResponsesSection\<close> (the field responses up to \<open>formData\<close>)
    and \<open>IdocNameArray\<close> ("Look for any array with idoc_name entries").
  \<^item> The three patterns of \<open>extractCustodyData\<close>, the extractor of another variant of
    \<open>server.js\<close> kept with the sources, that bear on its result: \<open>ControlIdData\<close>
    ("Strategy 1: Look for the control ID followed by data array"), \<open>RecordArrays\<close>
    ("Strategy 2", matched globally) and \<open>EscapedRecords\<close> ("Strategy 3", matched
    globally).
  \<^item> The three patterns of the single-pass handler, the variant of the handler that
    matches first and parses once (a variant of \<open>server.js\<close> kept with the sources):
    \<open>SinglePassOriginal\<close> ("Pattern 1: Original pattern"), \<open>SinglePassFlexible\<close>
    ("Pattern 2: More flexible pattern") and \<open>SinglePassControlId\<close> ("Pattern 3: Look
    for the control ID we know exists").
\<close>

datatype regex =
    GridResponseData | DataArrayWithName | FieldResponsesData | EscapedValueData
  | FieldResponsesSection | IdocNameArray
  | ControlIdData | RecordArrays | EscapedRecords
  | SinglePassOriginal | SinglePassFlexible | SinglePassControlId

text \<open>
  What the code takes from its surroundings: \<open>Date.parse\<close>, the clock,
  \<open>JSON.parse\<close> on the text of an array of records, of one record and of an array of
  field responses (the message of the SyntaxError, or the value), \<open>html.match(re)\<close>
  (the first capture group, or no match), \<open>html.match(re)\<close> for a global pattern (the
  matched substrings, or no match), and the two remote calls, each for an identifier.
  Every text that the code hands to \<open>JSON.parse\<close> as an array begins with a bracket,
  by the pattern that matched it or because the code puts it between brackets, so that a
  value parsed from it is an array; the text of one record begins with a brace, so that a
  value parsed from it is an object.
\<close>

record env =
  dateParse :: "string \<Rightarrow> jsnum"
  clock :: string
  jsonParse :: "string \<Rightarrow> string + element list"
  jsonParseObject :: "string \<Rightarrow> string + rawRecord"
  jsonParseFieldResponses :: "string \<Rightarrow> string + fieldResponse option list"
  regexMatchAll :: "regex \<Rightarrow> string \<Rightarrow> string list option"
  regexMatch :: "regex \<Rightarrow> string \<Rightarrow> string option"
  apiFetch :: "string \<Rightarrow> apiBody fetched"
  pageFetch :: "string \<Rightarrow> string fetched"

datatype request = PostFormFieldValues string | GetIicInfo string

subsection \<open>Exceptions and responses\<close>

text \<open>
  The exception that the code can raise on the data it has parsed: a TypeError, thrown
  when a property of null is read or a method that a value does not have is called.
\<close>

datatype exn = TypeError

text \<open>
  The \<open>details\<close> of an error body: the message of an error, the text
  \<open>VISOR returned status n\<close>, or the message of a TypeError (its wording is the
  engine's).
\<close>

datatype details = Message string | VisorStatus nat | TypeErrorMessage

text \<open>The \<open>debug\<close> object: \<open>htmlLength\<close> and the flags, by name.\<close>

datatype debugInfo = Debug nat "(string \<times> bool) list"

text \<open>
  The JSON bodies the handlers send: \<open>{error, details}\<close>,
  \<open>{iicId, records, totalRecords, message, debug}\<close> (with \<open>totalRecords\<close> and \<open>debug\<close>
  present or not), and the timeline object.
\<close>

datatype body =
    ErrorBody string "details option"
  | NoRecordsBody string "entry list" "nat option" string "debugInfo option"
  | TimelineBody timeline

datatype response = HttpResponse (status: nat) (body: body)

subsection \<open>String helpers\<close>

text \<open>\<open>s.includes(pat)\<close>.\<close>

fun strIncludes :: "string \<Rightarrow> string \<Rightarrow> bool" where
  "strIncludes [] pat = (pat = [])"
| "strIncludes (c # cs) pat = (take (length pat) (c # cs) = pat \<or> strIncludes cs pat)"

text \<open>\<open>s.replace(/pat/g, rep)\<close> for a literal, non-empty \<open>pat\<close>.\<close>

function replaceAll :: "string \<Rightarrow> string \<Rightarrow> string \<Rightarrow> string" where
  "replaceAll pat rep s =
     (if s = [] \<or> pat = [] then s
      else if take (length pat) s = pat then rep @ replaceAll pat rep (drop (length pat) s)
      else hd s # replaceAll pat rep (tl s))"
  by pat_completeness auto
termination
  by (relation "measure (\<lambda>(pat, rep, s). length s)") auto

declare replaceAll.simps [simp del]

definition unescapeEntities :: "string \<Rightarrow> string" where
  "unescapeEntities jsonStr =
     replaceAll ''&gt;'' ''>''
       (replaceAll ''&lt;'' ''<''
          (replaceAll ''&amp;'' ''&''
             (replaceAll ''&quot;'' [CHR 0x22] jsonStr)))"

subsection \<open>The timeline code on a parsed array\<close>

text \<open>
  The sort and the loop of \<open>processCustodyData\<close> (and the same code in the handlers that
  have it inline) on an array as \<open>JSON.parse\<close> gives it. When an element is null the
  code throws a TypeError before it returns anything: in the comparator at
  \<open>a.savin_intakedate\<close>, or at the latest in the loop, which visits every element, at
  \<open>record.idoc_name\<close>. Otherwise all elements are objects and the result is that of
  \<open>processCustodyData\<close> above.
\<close>

definition processElements ::
  "(string \<Rightarrow> jsnum) \<Rightarrow> string \<Rightarrow> string \<Rightarrow> element list \<Rightarrow> exn + timeline" where
  "processElements pd now iicid custodyData =
     (case those custodyData of
        None \<Rightarrow> Inl TypeError
      | Some objects \<Rightarrow> Inr (processCustodyData pd now iicid objects))"

subsection \<open>\<open>extractCustodyDataFromHTML\<close>\<close>

definition patterns :: "regex list" where
  "patterns = [GridResponseData, DataArrayWithName, FieldResponsesData, EscapedValueData]"

text \<open>
  The loop \<open>for (let i = 0; i < patterns.length; i++)\<close> over the patterns still to try.
  An exception in the \<open>try\<close> block is caught and the loop goes on: the SyntaxError of
  \<open>JSON.parse\<close>, and the TypeError of \<open>data[0].idoc_name\<close> when the first element is
  null.
\<close>

fun extractLoop ::
  "(regex \<Rightarrow> string \<Rightarrow> string option) \<Rightarrow> (string \<Rightarrow> string + element list) \<Rightarrow>
   regex list \<Rightarrow> string \<Rightarrow> element list option" where
  "extractLoop rx jp [] html = None"
| "extractLoop rx jp (p # ps) html =
     (case rx p html of
        None \<Rightarrow> extractLoop rx jp ps html
      | Some m1 \<Rightarrow>
          (let jsonStr = (if strIncludes m1 ''&quot;'' then unescapeEntities m1 else m1)
           in case jp jsonStr of
                Inl e \<Rightarrow> extractLoop rx jp ps html
              | Inr data \<Rightarrow>
                  if length data > 0 then
                    (case data ! 0 of
                       None \<Rightarrow> extractLoop rx jp ps html
                     | Some first \<Rightarrow>
                         if truthy (idoc_name first) then Some data
                         else extractLoop rx jp ps html)
                  else extractLoop rx jp ps html))"

definition extractCustodyDataFromHTML ::
  "(regex \<Rightarrow> string \<Rightarrow> string option) \<Rightarrow> (string \<Rightarrow> string + element list) \<Rightarrow>
   string \<Rightarrow> element list option" where
  "extractCustodyDataFromHTML rx jp html = extractLoop rx jp patterns html"

subsection \<open>The handler of \<open>server.js\<close> that calls \<open>processCustodyData\<close>\<close>

text \<open>
  \<open>fieldResponses.find(fr => fr.controlDataId === '...' && fr.gridResponse)\<close>: the
  first element that passes the test, or undefined; the test throws on an element that is
  null.
\<close>

fun findSubgrid :: "fieldResponse option list \<Rightarrow> exn + fieldResponse option" where
  "findSubgrid [] = Inr None"
| "findSubgrid (None # frs) = Inl TypeError"
| "findSubgrid (Some fr # frs) =
     (if controlDataId fr = ''b53c668f-4840-4868-8182-1c0ac0c19dc6'' \<and> gridResponse fr \<noteq> None
      then Inr (Some fr) else findSubgrid frs)"

text \<open>
  Strategy 1, the direct API call: the timeline that it answers with, when the call
  answers \<open>ok\<close> with JSON that holds a field response of the custody grid with a truthy
  \<open>data\<close> on which \<open>processCustodyData\<close> returns. Every exception in its \<open>try\<close> block
  is caught, and the handler goes on to the page (\<open>None\<close>): a rejected call, a body that
  is not JSON, a property read of null, \<open>find\<close> called on a value that is not an array,
  and a TypeError in \<open>processCustodyData\<close>, which is called inside the block.
\<close>

definition apiStrategy :: "env \<Rightarrow> string \<Rightarrow> timeline option" where
  "apiStrategy e iicid =
     (case apiFetch e iicid of
        Rejected msg \<Rightarrow> None
      | Reply isOk st apiData \<Rightarrow>
          if isOk then
            (case apiData of
               NotJson msg \<Rightarrow> None
             | JsonNull \<Rightarrow> None
             | ApiData fieldResponsesValue \<Rightarrow>
                 (case fieldResponsesValue of
                    Falsy \<Rightarrow> None
                  | NotArray z \<Rightarrow> None
                  | Array fieldResponses \<Rightarrow>
                      (case findSubgrid fieldResponses of
                         Inl err \<Rightarrow> None
                       | Inr None \<Rightarrow> None
                       | Inr (Some subgridData) \<Rightarrow>
                           (case gridResponse subgridData of
                              None \<Rightarrow> None
                            | Some Falsy \<Rightarrow> None
                            | Some (NotArray z) \<Rightarrow> None
                            | Some (Array custodyData) \<Rightarrow>
                                (case processElements (dateParse e) (clock e) iicid custodyData of
                                   Inl err \<Rightarrow> None
                                 | Inr result \<Rightarrow> Some result)))))
          else None)"

text \<open>
  The handler returns the response it sends and the remote calls it made, in order. An
  exception that \<open>processCustodyData\<close> throws on the extracted array reaches the outer
  \<open>catch\<close>, which answers 500.
\<close>

definition custodyHistoryHandler :: "env \<Rightarrow> string \<Rightarrow> response \<times> request list" where
  "custodyHistoryHandler e iicid =
     (if \<not> validIicId iicid then
        (HttpResponse 400 (ErrorBody ''Invalid IIC ID format'' None), [])
      else
        (case apiStrategy e iicid of
           Some result \<Rightarrow>
             (HttpResponse 200 (TimelineBody result), [PostFormFieldValues iicid])
         | None \<Rightarrow>
             (case pageFetch e iicid of
                Rejected msg \<Rightarrow>
                  (HttpResponse 500
                     (ErrorBody ''Failed to fetch custody history'' (Some (Message msg))),
                   [PostFormFieldValues iicid, GetIicInfo iicid])
              | Reply isOk st html \<Rightarrow>
                  if \<not> isOk then
                    (HttpResponse 500
                       (ErrorBody ''Failed to fetch custody history'' (Some (VisorStatus st))),
                     [PostFormFieldValues iicid, GetIicInfo iicid])
                  else
                    (let noRecords =
                       HttpResponse 200
                         (NoRecordsBody iicid [] (Some 0)
                            ''No custody history found for this IIC ID'' None)
                     in case extractCustodyDataFromHTML (regexMatch e) (jsonParse e) html of
                          None \<Rightarrow> (noRecords, [PostFormFieldValues iicid, GetIicInfo iicid])
                        | Some custodyData \<Rightarrow>
                            if length custodyData = 0 then
                              (noRecords, [PostFormFieldValues iicid, GetIicInfo iicid])
                            else
                              (case processElements (dateParse e) (clock e) iicid custodyData of
                                 Inl err \<Rightarrow>
                                   (HttpResponse 500
                                      (ErrorBody ''Failed to fetch custody history''
                                         (Some TypeErrorMessage)),
                                    [PostFormFieldValues iicid, GetIicInfo iicid])
                               | Inr result \<Rightarrow>
                                   (HttpResponse 200 (TimelineBody result),
                                    [PostFormFieldValues iicid, GetIicInfo iicid]))))))"

subsection \<open>The handler of \<open>server.js\<close> that builds the timeline inline\<close>

text \<open>
  The first program of \<open>server.js\<close>. \<open>sectionData\<close> is \<open>custodyData\<close> after the first
  \<open>try\<close> block, which looks at the field responses embedded in the page: \<open>Falsy\<close> is
  \<open>custodyData\<close> still null. The block catches every exception.
\<close>

definition sectionData :: "env \<Rightarrow> string \<Rightarrow> element arrayValue" where
  "sectionData e html =
     (case regexMatch e FieldResponsesSection html of
        None \<Rightarrow> Falsy
      | Some m1 \<Rightarrow>
          (case jsonParseFieldResponses e m1 of
             Inl msg \<Rightarrow> Falsy
           | Inr fieldResponses \<Rightarrow>
               (case findSubgrid fieldResponses of
                  Inl err \<Rightarrow> Falsy
                | Inr None \<Rightarrow> Falsy
                | Inr (Some subgridResponse) \<Rightarrow>
                    (case gridResponse subgridResponse of
                       None \<Rightarrow> Falsy
                     | Some dataValue \<Rightarrow> dataValue))))"

text \<open>The fallback pattern, tried under \<open>if (!custodyData)\<close>.\<close>

definition fallbackData :: "env \<Rightarrow> string \<Rightarrow> element arrayValue" where
  "fallbackData e html =
     (case regexMatch e IdocNameArray html of
        None \<Rightarrow> Falsy
      | Some m1 \<Rightarrow>
          (case jsonParse e (''['' @ m1 @ '']'') of
             Inl msg \<Rightarrow> Falsy
           | Inr d \<Rightarrow> Array d))"

definition inlineExtract :: "env \<Rightarrow> string \<Rightarrow> element arrayValue" where
  "inlineExtract e html =
     (case sectionData e html of
        Falsy \<Rightarrow> fallbackData e html
      | NotArray z \<Rightarrow> NotArray z
      | Array d \<Rightarrow> Array d)"

text \<open>
  After the extraction this handler tests \<open>!custodyData || custodyData.length === 0\<close>,
  then sorts and walks the records with the same code as \<open>processCustodyData\<close> and sends
  the same object. A value that is not an array has no \<open>sort\<close>: the call throws, and
  the outer \<open>catch\<close> answers 500, as it does when an element is null.
\<close>

definition inlineHandler :: "env \<Rightarrow> string \<Rightarrow> response \<times> request list" where
  "inlineHandler e iicid =
     (if \<not> validIicId iicid then
        (HttpResponse 400 (ErrorBody ''Invalid IIC ID format'' None), [])
      else
        (case pageFetch e iicid of
           Rejected msg \<Rightarrow>
             (HttpResponse 500
                (ErrorBody ''Failed to fetch custody history'' (Some (Message msg))),
              [GetIicInfo iicid])
         | Reply isOk st html \<Rightarrow>
             if \<not> isOk then
               (HttpResponse 500
                  (ErrorBody ''Failed to fetch custody history'' (Some (VisorStatus st))),
                [GetIicInfo iicid])
             else
               (let noRecords =
                  HttpResponse 200
                    (NoRecordsBody iicid [] None ''No custody history found for this IIC ID''
                       (Some (Debug (length html)
                                [(''hasFieldResponses'', strIncludes html ''fieldResponses''),
                                 (''hasIdocName'', strIncludes html ''idoc_name''),
                                 (''hasControlId'',
                                  strIncludes html ''b53c668f-4840-4868-8182-1c0ac0c19dc6'')])));
                    failed =
                  HttpResponse 500
                    (ErrorBody ''Failed to fetch custody history'' (Some TypeErrorMessage))
                in case inlineExtract e html of
                     Falsy \<Rightarrow> (noRecords, [GetIicInfo iicid])
                   | NotArray lengthIsZero \<Rightarrow>
                       if lengthIsZero then (noRecords, [GetIicInfo iicid])
                       else (failed, [GetIicInfo iicid])
                   | Array custodyData \<Rightarrow>
                       if length custodyData = 0 then (noRecords, [GetIicInfo iicid])
                       else
                         (case processElements (dateParse e) (clock e) iicid custodyData of
                            Inl err \<Rightarrow> (failed, [GetIicInfo iicid])
                          | Inr result \<Rightarrow>
                              (HttpResponse 200 (TimelineBody result), [GetIicInfo iicid])))))"

subsection \<open>\<open>extractCustodyData\<close> and its handler\<close>

text \<open>
  The extractor of the variant with four strategies. Strategy 1 returns what it parses.
  Strategy 2 keeps the longest parsed array whose first element has a truthy name (a
  first element that is null makes the test throw, and the array is skipped). Strategy 3
  parses every escaped object, fails as a whole when one of them does not parse, and
  keeps the objects with a truthy name. Strategy 4 only logs the keys of the form data
  and returns nothing, so it does not appear here.
\<close>

definition controlIdStrategy :: "env \<Rightarrow> string \<Rightarrow> element list option" where
  "controlIdStrategy e html =
     (case regexMatch e ControlIdData html of
        None \<Rightarrow> None
      | Some m1 \<Rightarrow>
          (case jsonParse e m1 of
             Inl msg \<Rightarrow> None
           | Inr data \<Rightarrow> Some data))"

definition longestNamed ::
  "(string \<Rightarrow> string + element list) \<Rightarrow> string list \<Rightarrow> element list option" where
  "longestNamed jp ms =
     fst (foldl (\<lambda>(longestArray, maxLength) m.
                   case jp m of
                     Inl msg \<Rightarrow> (longestArray, maxLength)
                   | Inr parsed \<Rightarrow>
                       if length parsed > maxLength then
                         (case parsed ! 0 of
                            None \<Rightarrow> (longestArray, maxLength)
                          | Some first \<Rightarrow>
                              if truthy (idoc_name first) then (Some parsed, length parsed)
                              else (longestArray, maxLength))
                       else (longestArray, maxLength))
           (None, 0) ms)"

fun parseEach :: "(string \<Rightarrow> string + rawRecord) \<Rightarrow> string list \<Rightarrow> rawRecord list option" where
  "parseEach jo [] = Some []"
| "parseEach jo (u # us) =
     (case jo u of
        Inl msg \<Rightarrow> None
      | Inr r \<Rightarrow> (case parseEach jo us of None \<Rightarrow> None | Some rs \<Rightarrow> Some (r # rs)))"

definition arraysStrategy :: "env \<Rightarrow> string \<Rightarrow> element list option" where
  "arraysStrategy e html =
     (case regexMatchAll e RecordArrays html of
        None \<Rightarrow> None
      | Some matches \<Rightarrow> longestNamed (jsonParse e) matches)"

definition escapedStrategy :: "env \<Rightarrow> string \<Rightarrow> element list option" where
  "escapedStrategy e html =
     (case regexMatchAll e EscapedRecords html of
        None \<Rightarrow> None
      | Some escapedMatches \<Rightarrow>
          (let unescaped =
                 map (\<lambda>m. replaceAll ''&amp;'' ''&'' (replaceAll ''&quot;'' [CHR 0x22] m))
                   escapedMatches
           in case parseEach (jsonParseObject e) unescaped of
                None \<Rightarrow> None
              | Some parsed \<Rightarrow>
                  (let records = filter (\<lambda>r. truthy (idoc_name r)) parsed
                   in if length records > 0 then Some (map Some records) else None)))"

definition extractCustodyData :: "env \<Rightarrow> string \<Rightarrow> element list option" where
  "extractCustodyData e html =
     (case controlIdStrategy e html of
        Some data \<Rightarrow> Some data
      | None \<Rightarrow>
          (case arraysStrategy e html of
             Some longestArray \<Rightarrow> Some longestArray
           | None \<Rightarrow> escapedStrategy e html))"

text \<open>
  Its handler sends \<open>{iicId, records: [], message}\<close> when nothing or an empty array was
  extracted, and otherwise sorts and walks the records with the same code as
  \<open>processCustodyData\<close>; a TypeError thrown there reaches the outer \<open>catch\<close>.
\<close>

definition strategiesHandler :: "env \<Rightarrow> string \<Rightarrow> response \<times> request list" where
  "strategiesHandler e iicid =
     (if \<not> validIicId iicid then
        (HttpResponse 400 (ErrorBody ''Invalid IIC ID format'' None), [])
      else
        (case pageFetch e iicid of
           Rejected msg \<Rightarrow>
             (HttpResponse 500
                (ErrorBody ''Failed to fetch custody history'' (Some (Message msg))),
              [GetIicInfo iicid])
         | Reply isOk st html \<Rightarrow>
             if \<not> isOk then
               (HttpResponse 500
                  (ErrorBody ''Failed to fetch custody history'' (Some (VisorStatus st))),
                [GetIicInfo iicid])
             else
               (let noRecords =
                  HttpResponse 200
                    (NoRecordsBody iicid [] None ''No custody history found for this IIC ID'' None)
                in case extractCustodyData e html of
                     None \<Rightarrow> (noRecords, [GetIicInfo iicid])
                   | Some custodyData \<Rightarrow>
                       if length custodyData = 0 then (noRecords, [GetIicInfo iicid])
                       else
                         (case processElements (dateParse e) (clock e) iicid custodyData of
                            Inl err \<Rightarrow>
                              (HttpResponse 500
                                 (ErrorBody ''Failed to fetch custody history''
                                    (Some TypeErrorMessage)),
                               [GetIicInfo iicid])
                          | Inr result \<Rightarrow>
                              (HttpResponse 200 (TimelineBody result), [GetIicInfo iicid])))))"

subsection \<open>The single-pass handler\<close>

text \<open>
  The variant of the handler that matches up to three patterns and then parses once:
  \<open>match = html.match(p1); if (!match) match = html.match(p2); if (!match) ...\<close>.
\<close>

definition singlePassMatch :: "(regex \<Rightarrow> string \<Rightarrow> string option) \<Rightarrow> string \<Rightarrow> string option" where
  "singlePassMatch rx html =
     (case rx SinglePassOriginal html of
        Some m \<Rightarrow> Some m
      | None \<Rightarrow>
          (case rx SinglePassFlexible html of
             Some m \<Rightarrow> Some m
           | None \<Rightarrow> rx SinglePassControlId html))"

text \<open>
  A parse error is answered from the \<open>catch\<close> around \<open>JSON.parse\<close>. After a successful
  parse this handler sorts and walks the records with the same code as
  \<open>processCustodyData\<close> and sends the same object; a TypeError thrown there reaches the
  outer \<open>catch\<close>.
\<close>

definition singlePassHandler :: "env \<Rightarrow> string \<Rightarrow> response \<times> request list" where
  "singlePassHandler e iicid =
     (if \<not> validIicId iicid then
        (HttpResponse 400 (ErrorBody ''Invalid IIC ID format'' None), [])
      else
        (case pageFetch e iicid of
           Rejected msg \<Rightarrow>
             (HttpResponse 500
                (ErrorBody ''Failed to fetch custody history'' (Some (Message msg))),
              [GetIicInfo iicid])
         | Reply isOk st html \<Rightarrow>
             if \<not> isOk then
               (HttpResponse 500
                  (ErrorBody ''Failed to fetch custody history'' (Some (VisorStatus st))),
                [GetIicInfo iicid])
             else
               (case singlePassMatch (regexMatch e) html of
                  None \<Rightarrow>
                    (HttpResponse 200
                       (NoRecordsBody iicid [] None
                          ''No custody history found. The VISOR page may have changed format.''
                          (Some (Debug (length html)
                                   [(''hasIdocName'', strIncludes html ''idoc_name''),
                                    (''hasGridResponse'', strIncludes html ''gridResponse'')]))),
                     [GetIicInfo iicid])
                | Some m1 \<Rightarrow>
                    (case jsonParse e m1 of
                       Inl msg \<Rightarrow>
                         (HttpResponse 500
                            (ErrorBody ''Failed to parse custody data'' (Some (Message msg))),
                          [GetIicInfo iicid])
                     | Inr custodyData \<Rightarrow>
                         (case processElements (dateParse e) (clock e) iicid custodyData of
                            Inl err \<Rightarrow>
                              (HttpResponse 500
                                 (ErrorBody ''Failed to fetch custody history''
                                    (Some TypeErrorMessage)),
                               [GetIicInfo iicid])
                          | Inr result \<Rightarrow>
                              (HttpResponse 200 (TimelineBody result), [GetIicInfo iicid]))))))"

subsection \<open>Notions used to state the properties of the extractor\<close>

text \<open>
  What one pattern yields on a document: the array parsed from its capture group (after
  unescaping, when the capture holds \<open>&quot;\<close>), or nothing when the pattern does not
  match or the text does not parse.
\<close>

definition strategyYield ::
  "(regex \<Rightarrow> string \<Rightarrow> string option) \<Rightarrow> (string \<Rightarrow> string + element list) \<Rightarrow>
   regex \<Rightarrow> string \<Rightarrow> element list option" where
  "strategyYield rx jp p html =
     (case rx p html of
        None \<Rightarrow> None
      | Some m1 \<Rightarrow>
          (case jp (if strIncludes m1 ''&quot;'' then unescapeEntities m1 else m1) of
             Inl e \<Rightarrow> None
           | Inr data \<Rightarrow> Some data))"

text \<open>An element is an object with a truthy name.\<close>

fun named :: "element \<Rightarrow> bool" where
  "named None = False"
| "named (Some r) = truthy (idoc_name r)"

text \<open>The check the code makes: the array is not empty and its first element has a truthy name.\<close>

definition firstNamed :: "element list \<Rightarrow> bool" where
  "firstNamed data = (data \<noteq> [] \<and> named (hd data))"

text \<open>A pattern fails on a document: it yields nothing, or an array that does not pass the check.\<close>

definition strategyFails ::
  "(regex \<Rightarrow> string \<Rightarrow> string option) \<Rightarrow> (string \<Rightarrow> string + element list) \<Rightarrow>
   regex \<Rightarrow> string \<Rightarrow> bool" where
  "strategyFails rx jp p html =
     (case strategyYield rx jp p html of None \<Rightarrow> True | Some data \<Rightarrow> \<not> firstNamed data)"

text \<open>
  The shape the specification asks of an array: every element is an object that has the
  name field.
\<close>

fun hasNameField :: "element \<Rightarrow> bool" where
  "hasNameField None = False"
| "hasNameField (Some r) = (idoc_name r \<noteq> JUndefined)"

definition allNamed :: "element list \<Rightarrow> bool" where
  "allNamed data = list_all hasNameField data"

text \<open>An element of the array is null.\<close>

definition holdsNull :: "element list \<Rightarrow> bool" where
  "holdsNull data = (None \<in> set data)"

text \<open>The objects of an array without null.\<close>

definition objectsOf :: "element list \<Rightarrow> rawRecord list" where
  "objectsOf data = map the data"

subsection \<open>Example documents\<close>

definition sampleId :: string where
  "sampleId = ''01234567-89ab-cdef-0123-456789abcdef''"

text \<open>
  A page whose embedded array has a trailing comma: of the patterns of
  \<open>extractCustodyDataFromHTML\<close> only the second matches it, of the single-pass patterns
  the second is the first to match, both with the capture \<open>capBadJson\<close>; of the patterns
  of the inline handler the fallback matches, with the capture \<open>capBadJsonInner\<close>.
  \<open>JSON.parse\<close> rejects the array. The API call is answered with status 404.
\<close>

definition htmlBadJson :: string where
  \<open>htmlBadJson = ''"data":[{"idoc_name":"A",}]''\<close>

definition capBadJson :: string where
  \<open>capBadJson = ''[{"idoc_name":"A",}]''\<close>

definition capBadJsonInner :: string where
  \<open>capBadJsonInner = ''{"idoc_name":"A",}''\<close>

definition envBadJson :: env where
  "envBadJson =
     \<lparr> dateParse = isoParse,
       clock = ''2024-05-01T12:00:00.000Z'',
       jsonParse = (\<lambda>s. Inl ''Unexpected token } in JSON at position 18''),
       jsonParseObject = (\<lambda>s. Inl ''Unexpected end of JSON input''),
       jsonParseFieldResponses = (\<lambda>s. Inl ''Unexpected end of JSON input''),
       regexMatchAll = (\<lambda>p h. None),
       regexMatch = (\<lambda>p h. if h = htmlBadJson then
                               (if p = DataArrayWithName \<or> p = SinglePassFlexible
                                then Some capBadJson
                                else if p = IdocNameArray then Some capBadJsonInner else None)
                             else None),
       apiFetch = (\<lambda>i. Reply False 404 (NotJson ''Unexpected token < in JSON at position 0'')),
       pageFetch = (\<lambda>i. Reply True 200 htmlBadJson) \<rparr>"

text \<open>
  A page whose embedded array has a first element with a name and a second without: of
  the patterns of \<open>extractCustodyDataFromHTML\<close> only the second matches it, of the
  single-pass patterns the second is the first to match, both with the capture
  \<open>capMixed\<close>, which parses to two objects.
\<close>

definition htmlMixed :: string where
  \<open>htmlMixed = ''"data":[{"idoc_name":"A"},{"x":"y"}]''\<close>

definition capMixed :: string where
  \<open>capMixed = ''[{"idoc_name":"A"},{"x":"y"}]''\<close>

definition recNamed :: rawRecord where
  "recNamed = \<lparr> idoc_name = JStr ''A'', idoc_facilityid = JUndefined,
                savin_intakedate = JUndefined, idoc_releasedate = JUndefined \<rparr>"

definition recBare :: rawRecord where
  "recBare = \<lparr> idoc_name = JUndefined, idoc_facilityid = JUndefined,
               savin_intakedate = JUndefined, idoc_releasedate = JUndefined \<rparr>"

definition envMixed :: env where
  "envMixed =
     \<lparr> dateParse = isoParse,
       clock = ''2024-05-01T12:00:00.000Z'',
       jsonParse = (\<lambda>s. if s = capMixed then Inr [Some recNamed, Some recBare]
                         else Inl ''Unexpected token in JSON''),
       jsonParseObject = (\<lambda>s. Inl ''Unexpected end of JSON input''),
       jsonParseFieldResponses = (\<lambda>s. Inl ''Unexpected end of JSON input''),
       regexMatchAll = (\<lambda>p h. None),
       regexMatch = (\<lambda>p h. if (p = DataArrayWithName \<or> p = SinglePassFlexible) \<and> h = htmlMixed
                             then Some capMixed else None),
       apiFetch = (\<lambda>i. Rejected ''request failed''),
       pageFetch = (\<lambda>i. Reply True 200 htmlMixed) \<rparr>"

text \<open>A page in which no pattern matches; the API call fails.\<close>

definition htmlNoMatch :: string where
  "htmlNoMatch = ''<html><body>No results</body></html>''"

definition envNoMatch :: env where
  "envNoMatch =
     \<lparr> dateParse = isoParse,
       clock = ''2024-05-01T12:00:00.000Z'',
       jsonParse = (\<lambda>s. Inl ''Unexpected end of JSON input''),
       jsonParseObject = (\<lambda>s. Inl ''Unexpected end of JSON input''),
       jsonParseFieldResponses = (\<lambda>s. Inl ''Unexpected end of JSON input''),
       regexMatchAll = (\<lambda>p h. None),
       regexMatch = (\<lambda>p h. None),
       apiFetch = (\<lambda>i. Rejected ''request failed''),
       pageFetch = (\<lambda>i. Reply True 200 htmlNoMatch) \<rparr>"

text \<open>
  A page that names the control and holds an array whose only object has the text
  \<open>idoc_name\<close> as a value, not as a property: the first pattern of
  \<open>extractCustodyData\<close>, the second of \<open>extractCustodyDataFromHTML\<close> and the second of
  the single-pass handler match it, all with the capture \<open>capValueOnly\<close>, which parses to
  one object without any of the four properties.
\<close>

definition htmlValueOnly :: string where
  \<open>htmlValueOnly = ''b53c668f-4840-4868-8182-1c0ac0c19dc6 "data":[{"x":"idoc_name"}]''\<close>

definition capValueOnly :: string where
  \<open>capValueOnly = ''[{"x":"idoc_name"}]''\<close>

definition envValueOnly :: env where
  "envValueOnly =
     \<lparr> dateParse = isoParse,
       clock = ''2024-05-01T12:00:00.000Z'',
       jsonParse = (\<lambda>s. if s = capValueOnly then Inr [Some recBare]
                         else Inl ''Unexpected token in JSON''),
       jsonParseObject = (\<lambda>s. Inl ''Unexpected end of JSON input''),
       jsonParseFieldResponses = (\<lambda>s. Inl ''Unexpected end of JSON input''),
       regexMatchAll = (\<lambda>p h. None),
       regexMatch = (\<lambda>p h. if (p = ControlIdData \<or> p = DataArrayWithName \<or>
                                 p = SinglePassFlexible) \<and> h = htmlValueOnly
                             then Some capValueOnly else None),
       apiFetch = (\<lambda>i. Rejected ''request failed''),
       pageFetch = (\<lambda>i. Reply True 200 htmlValueOnly) \<rparr>"

text \<open>
  A page that names the control and holds an array whose first element is an object with
  a name and whose second element is null: the first pattern of \<open>extractCustodyData\<close>,
  the second of \<open>extractCustodyDataFromHTML\<close> and the second of the single-pass handler
  match it, all with the capture \<open>capNullElement\<close>; the patterns of the inline handler
  do not match. The API call fails.
\<close>

definition htmlNullElement :: string where
  \<open>htmlNullElement = ''b53c668f-4840-4868-8182-1c0ac0c19dc6 "data":[{"idoc_name":"A"},null]''\<close>

definition capNullElement :: string where
  \<open>capNullElement = ''[{"idoc_name":"A"},null]''\<close>

definition envNullElement :: env where
  "envNullElement =
     \<lparr> dateParse = isoParse,
       clock = ''2024-05-01T12:00:00.000Z'',
       jsonParse = (\<lambda>s. if s = capNullElement then Inr [Some recNamed, None]
                         else Inl ''Unexpected token in JSON''),
       jsonParseObject = (\<lambda>s. Inl ''Unexpected end of JSON input''),
       jsonParseFieldResponses = (\<lambda>s. Inl ''Unexpected end of JSON input''),
       regexMatchAll = (\<lambda>p h. None),
       regexMatch = (\<lambda>p h. if (p = ControlIdData \<or> p = DataArrayWithName \<or>
                                 p = SinglePassFlexible) \<and> h = htmlNullElement
                             then Some capNullElement else None),
       apiFetch = (\<lambda>i. Rejected ''request failed''),
       pageFetch = (\<lambda>i. Reply True 200 htmlNullElement) \<rparr>"

text \<open>
  A page whose field responses hold the custody grid with an empty array of data, before
  an array of one named object. The first pattern of the inline handler matches with the
  capture \<open>capEmptyGrid\<close>, which parses to one field response, and its fallback pattern
  would match with the capture \<open>capNamedInner\<close>; the third single-pass pattern matches
  with the capture \<open>[]\<close>.
\<close>

definition htmlEmptyGrid :: string where
  \<open>htmlEmptyGrid = ''"fieldResponses":[{"controlDataId":"b53c668f-4840-4868-8182-1c0ac0c19dc6","gridResponse":{"data":[]}}],"formData":[{"idoc_name":"A"}]''\<close>

definition capEmptyGrid :: string where
  \<open>capEmptyGrid = ''[{"controlDataId":"b53c668f-4840-4868-8182-1c0ac0c19dc6","gridResponse":{"data":[]}}]''\<close>

definition capNamedInner :: string where
  \<open>capNamedInner = ''{"idoc_name":"A"}''\<close>

definition envEmptyGrid :: env where
  "envEmptyGrid =
     \<lparr> dateParse = isoParse,
       clock = ''2024-05-01T12:00:00.000Z'',
       jsonParse = (\<lambda>s. if s = ''['' @ capNamedInner @ '']'' then Inr [Some recNamed]
                         else if s = ''[]'' then Inr []
                         else Inl ''Unexpected token in JSON''),
       jsonParseObject = (\<lambda>s. Inl ''Unexpected end of JSON input''),
       jsonParseFieldResponses =
         (\<lambda>s. if s = capEmptyGrid
               then Inr [Some \<lparr> controlDataId = ''b53c668f-4840-4868-8182-1c0ac0c19dc6'',
                                 gridResponse = Some (Array []) \<rparr>]
               else Inl ''Unexpected token in JSON''),
       regexMatchAll = (\<lambda>p h. None),
       regexMatch = (\<lambda>p h. if h = htmlEmptyGrid then
                               (if p = FieldResponsesSection then Some capEmptyGrid
                                else if p = IdocNameArray then Some capNamedInner
                                else if p = SinglePassControlId then Some ''[]''
                                else None)
                             else None),
       apiFetch = (\<lambda>i. Rejected ''request failed''),
       pageFetch = (\<lambda>i. Reply True 200 htmlEmptyGrid) \<rparr>"

text \<open>
  A page whose field responses hold the custody grid with the array \<open>[null]\<close> of data.
  The first pattern of the inline handler matches with the capture \<open>capGridNull\<close>, and the
  third single-pass pattern matches with the capture \<open>[null]\<close>.
\<close>

definition htmlGridNull :: string where
  \<open>htmlGridNull = ''"fieldResponses":[{"controlDataId":"b53c668f-4840-4868-8182-1c0ac0c19dc6","gridResponse":{"data":[null]}}],"formData":{}''\<close>

definition capGridNull :: string where
  \<open>capGridNull = ''[{"controlDataId":"b53c668f-4840-4868-8182-1c0ac0c19dc6","gridResponse":{"data":[null]}}]''\<close>

definition envGridNull :: env where
  "envGridNull =
     \<lparr> dateParse = isoParse,
       clock = ''2024-05-01T12:00:00.000Z'',
       jsonParse = (\<lambda>s. if s = ''[null]'' then Inr [None]
                         else Inl ''Unexpected token in JSON''),
       jsonParseObject = (\<lambda>s. Inl ''Unexpected end of JSON input''),
       jsonParseFieldResponses =
         (\<lambda>s. if s = capGridNull
               then Inr [Some \<lparr> controlDataId = ''b53c668f-4840-4868-8182-1c0ac0c19dc6'',
                                 gridResponse = Some (Array [None]) \<rparr>]
               else Inl ''Unexpected token in JSON''),
       regexMatchAll = (\<lambda>p h. None),
       regexMatch = (\<lambda>p h. if h = htmlGridNull then
                               (if p = FieldResponsesSection then Some capGridNull
                                else if p = SinglePassControlId then Some ''[null]''
                                else None)
                             else None),
       apiFetch = (\<lambda>i. Rejected ''request failed''),
       pageFetch = (\<lambda>i. Reply True 200 htmlGridNull) \<rparr>"

text \<open>
  A page whose field responses hold the custody grid with the string \<open>none\<close> as data.
  Only the first pattern of the inline handler matches it, with the capture
  \<open>capDataString\<close>.
\<close>

definition htmlDataString :: string where
  \<open>htmlDataString = ''"fieldResponses":[{"controlDataId":"b53c668f-4840-4868-8182-1c0ac0c19dc6","gridResponse":{"data":"none"}}],"formData":{}''\<close>

definition capDataString :: string where
  \<open>capDataString = ''[{"controlDataId":"b53c668f-4840-4868-8182-1c0ac0c19dc6","gridResponse":{"data":"none"}}]''\<close>

definition envDataString :: env where
  "envDataString =
     \<lparr> dateParse = isoParse,
       clock = ''2024-05-01T12:00:00.000Z'',
       jsonParse = (\<lambda>s. Inl ''Unexpected token in JSON''),
       jsonParseObject = (\<lambda>s. Inl ''Unexpected end of JSON input''),
       jsonParseFieldResponses =
         (\<lambda>s. if s = capDataString
               then Inr [Some \<lparr> controlDataId = ''b53c668f-4840-4868-8182-1c0ac0c19dc6'',
                                 gridResponse = Some (NotArray False) \<rparr>]
               else Inl ''Unexpected token in JSON''),
       regexMatchAll = (\<lambda>p h. None),
       regexMatch = (\<lambda>p h. if p = FieldResponsesSection \<and> h = htmlDataString
                             then Some capDataString else None),
       apiFetch = (\<lambda>i. Rejected ''request failed''),
       pageFetch = (\<lambda>i. Reply True 200 htmlDataString) \<rparr>"

text \<open>
  A page that is an array of one named object: only the fallback pattern of the inline
  handler matches it, with the capture \<open>capNamedInner\<close>.
\<close>

definition htmlNamedArray :: string where
  \<open>htmlNamedArray = ''[{"idoc_name":"A"}]''\<close>

definition envNamedArray :: env where
  "envNamedArray =
     \<lparr> dateParse = isoParse,
       clock = ''2024-05-01T12:00:00.000Z'',
       jsonParse = (\<lambda>s. if s = ''['' @ capNamedInner @ '']'' then Inr [Some recNamed]
                         else Inl ''Unexpected token in JSON''),
       jsonParseObject = (\<lambda>s. Inl ''Unexpected end of JSON input''),
       jsonParseFieldResponses = (\<lambda>s. Inl ''Unexpected end of JSON input''),
       regexMatchAll = (\<lambda>p h. None),
       regexMatch = (\<lambda>p h. if p = IdocNameArray \<and> h = htmlNamedArray
                             then Some capNamedInner else None),
       apiFetch = (\<lambda>i. Rejected ''request failed''),
       pageFetch = (\<lambda>i. Reply True 200 htmlNamedArray) \<rparr>"

section \<open>Properties of the timeline builder\<close>

subsection \<open>The loop computes \<open>timelineOf\<close>\<close>

text \<open>
  One pass of the loop appends the custody entry of its record and, when a successor
  exists, the gap entries between the two; so the loop, started at index 0 with no entries,
  computes \<open>timelineOf\<close> of the list it walks, in whatever order the sort has left it.
\<close>

lemma jsRem_pos: "0 < a \<Longrightarrow> 0 < b \<Longrightarrow> jsRem a b = a mod b"
  by (simp add: jsRem_def)

lemma loopBody_last:
  "Suc i = length cs \<Longrightarrow> loopBody pd cs i acc = acc @ [custodyOf (cs ! i)]"
  by (simp add: loopBody_def custodyOf_def Let_def)

lemma loopBody_inner:
  "Suc i < length cs \<Longrightarrow>
   loopBody pd cs i acc = acc @ custodyOf (cs ! i) # gapOf pd (cs ! i) (cs ! Suc i)"
  by (simp add: loopBody_def custodyOf_def gapOf_def gapValue_def Let_def jsRem_pos floorDiv_def
           split: option.splits)

lemma processLoop_drop:
  "i \<le> length cs \<Longrightarrow> processLoop pd cs i acc = acc @ timelineOf pd (drop i cs)"
proof (induction pd cs i acc rule: processLoop.induct)
  case (1 pd cs i acc)
  show ?case
  proof (cases "i < length cs")
    case False
    with "1.prems" show ?thesis by (simp add: processLoop.simps)
  next
    case True
    note lt = this
    have step: "processLoop pd cs i acc = processLoop pd cs (i + 1) (loopBody pd cs i acc)"
      using lt by (subst processLoop.simps) simp
    have ih: "processLoop pd cs (i + 1) (loopBody pd cs i acc)
                = loopBody pd cs i acc @ timelineOf pd (drop (i + 1) cs)"
      using "1.IH" [OF lt] lt by simp
    show ?thesis
    proof (cases "Suc i = length cs")
      case True
      then have "drop i cs = [cs ! i]"
        by (metis Cons_nth_drop_Suc drop_all lessI order_refl)
      with True step ih show ?thesis
        by (simp add: loopBody_last)
    next
      case False
      with lt have lt2: "Suc i < length cs" by simp
      have d1: "drop i cs = cs ! i # drop (Suc i) cs"
        using lt by (simp add: Cons_nth_drop_Suc)
      have d2: "drop (Suc i) cs = cs ! Suc i # drop (Suc (Suc i)) cs"
        using lt2 by (simp add: Cons_nth_drop_Suc)
      show ?thesis
        using step ih by (simp add: loopBody_inner [OF lt2] d1 d2)
    qed
  qed
qed

lemma processLoop_timelineOf: "processLoop pd cs 0 [] = timelineOf pd cs"
  by (simp add: processLoop_drop)

lemma records_process:
  "records (processCustodyData pd now iid cd) = timelineOf pd (arraySort (compareFn pd) cd)"
  by (simp add: processCustodyData_def Let_def processLoop_timelineOf)

text \<open>The sort keeps the number of records.\<close>

lemma length_placeInto: "length (placeInto cmp a bs) = Suc (length bs)"
  by (induction bs) auto

lemma length_arraySort: "length (arraySort cmp xs) = length xs"
  by (induction xs) (auto simp: length_placeInto)

lemma arraySort_Nil_iff: "arraySort cmp xs = [] \<longleftrightarrow> xs = []"
  using length_arraySort [of cmp xs] by (metis length_0_conv)

subsection \<open>The shape of \<open>timelineOf\<close>\<close>

lemma gapOf_cases:
  "gapOf pd r nxt = [] \<or>
   (\<exists>g. 0 < g \<and> gapValue pd r nxt = Some g \<and> truthy (idoc_releasedate r) \<and>
        truthy (savin_intakedate nxt) \<and>
        gapOf pd r nxt = [OUT_OF_CUSTODY g (g div 86400000) (g mod 86400000 div 3600000)
                  (g mod 3600000 div 60000) (idoc_releasedate r) (savin_intakedate nxt)])"
  by (auto simp: gapOf_def split: option.splits)

lemma timelineOf_Cons: "\<exists>t. timelineOf pd (r # rs) = custodyOf r # t"
  by (cases rs) auto

lemma isCustody_custodyOf [simp]: "isCustody (custodyOf r)"
  by (simp add: custodyOf_def)

lemma not_isGap_custodyOf [simp]: "\<not> isGap (custodyOf r)"
  by (simp add: custodyOf_def)

lemma alternating_timelineOf: "cs \<noteq> [] \<Longrightarrow> alternating (timelineOf pd cs)"
proof (induction pd cs rule: timelineOf.induct)
  case (1 pd)
  then show ?case by simp
next
  case (2 pd r)
  then show ?case by simp
next
  case (3 pd r nxt rs)
  obtain t where t: "timelineOf pd (nxt # rs) = custodyOf nxt # t"
    using timelineOf_Cons by blast
  have alt: "alternating (custodyOf nxt # t)"
    using 3 t by simp
  from gapOf_cases [of pd r nxt] show ?case
  proof
    assume "gapOf pd r nxt = []"
    then show ?thesis using alt t by simp
  next
    assume "\<exists>g. 0 < g \<and> gapValue pd r nxt = Some g \<and> truthy (idoc_releasedate r) \<and>
        truthy (savin_intakedate nxt) \<and>
        gapOf pd r nxt = [OUT_OF_CUSTODY g (g div 86400000) (g mod 86400000 div 3600000)
                  (g mod 3600000 div 60000) (idoc_releasedate r) (savin_intakedate nxt)]"
    then obtain g where "gapOf pd r nxt = [OUT_OF_CUSTODY g (g div 86400000) (g mod 86400000 div 3600000)
                  (g mod 3600000 div 60000) (idoc_releasedate r) (savin_intakedate nxt)]" by blast
    then show ?thesis using alt t by (simp add: custodyOf_def)
  qed
qed

lemma filter_custody_gapOf: "filter isCustody (gapOf pd r nxt) = []"
  using gapOf_cases [of pd r nxt] by auto

lemma filter_custody_timelineOf: "filter isCustody (timelineOf pd cs) = map custodyOf cs"
  by (induction pd cs rule: timelineOf.induct) (auto simp: filter_custody_gapOf)

subsection \<open>Counting and locating the gaps\<close>

lemma truthy_hasDate: "truthy v \<Longrightarrow> hasDate v"
  by (cases v) auto

lemma gapOf_nonempty_iff:
  assumes "pd [] = None"
  shows "gapOf pd r nxt \<noteq> [] \<longleftrightarrow>
         (hasDate (idoc_releasedate r) \<and> hasDate (savin_intakedate nxt) \<and>
          (case gapValue pd r nxt of None \<Rightarrow> False | Some g \<Rightarrow> 0 < g))"
proof (cases "truthy (idoc_releasedate r) \<and> truthy (savin_intakedate nxt)")
  case True
  then show ?thesis
    by (auto simp: gapOf_def truthy_hasDate split: option.splits)
next
  case False
  then have "gapValue pd r nxt = None \<or> \<not> hasDate (idoc_releasedate r) \<or> \<not> hasDate (savin_intakedate nxt)"
    using assms
    by (cases "idoc_releasedate r"; cases "savin_intakedate nxt")
       (auto simp: gapValue_def)
  with False show ?thesis
    by (auto simp: gapOf_def)
qed

lemma length_gapOf: 
  assumes "pd [] = None"
  shows "length (gapOf pd r nxt) = (if gapFollows pd (r # nxt # rs) 0 then 1 else 0)"
proof -
  have "gapFollows pd (r # nxt # rs) 0 \<longleftrightarrow> gapOf pd r nxt \<noteq> []"
    using gapOf_nonempty_iff [of pd r nxt] assms by (simp add: gapFollows_def)
  then show ?thesis using gapOf_cases [of pd r nxt] by auto
qed

lemma gapFollows_Suc: "gapFollows pd (r # cs) (Suc i) = gapFollows pd cs i"
  by (simp add: gapFollows_def)

lemma count_gaps_Cons:
  "length (filter (gapFollows pd (r # cs)) [0..<Suc (length cs)]) =
     (if gapFollows pd (r # cs) 0 then 1 else 0) + length (filter (gapFollows pd cs) [0..<length cs])"
proof -
  have "[0..<Suc (length cs)] = 0 # map Suc [0..<length cs]"
    by (simp only: upt_conv_Cons [of 0] map_Suc_upt zero_less_Suc)
  then show ?thesis
    by (simp add: filter_map o_def gapFollows_Suc del: upt_Suc)
qed

lemma length_timelineOf:
  "pd [] = None \<Longrightarrow>
   length (timelineOf pd cs) = length cs + length (filter (gapFollows pd cs) [0..<length cs])"
proof (induction pd cs rule: timelineOf.induct)
  case (1 pd)
  then show ?case by simp
next
  case (2 pd r)
  then show ?case by (simp add: gapFollows_def)
next
  case (3 pd r nxt rs)
  have pdn: "pd [] = None" using "3.prems" .
  have c: "length (filter (gapFollows pd (r # nxt # rs)) [0..<Suc (length (nxt # rs))]) =
     (if gapFollows pd (r # nxt # rs) 0 then 1 else 0) +
     length (filter (gapFollows pd (nxt # rs)) [0..<length (nxt # rs)])"
    by (rule count_gaps_Cons)
  have "length (timelineOf pd (r # nxt # rs)) =
          Suc (length (gapOf pd r nxt) + length (timelineOf pd (nxt # rs)))"
    by simp
  also have "\<dots> = Suc ((if gapFollows pd (r # nxt # rs) 0 then 1 else 0) +
        (length (nxt # rs) + length (filter (gapFollows pd (nxt # rs)) [0..<length (nxt # rs)])))"
    using "3.IH" [OF pdn] length_gapOf [of pd r nxt rs] pdn by simp
  finally show ?case using c by simp
qed

lemma timelineOf_split:
  "i < length cs \<Longrightarrow>
   \<exists>pre post. timelineOf pd cs = pre @ custodyOf (cs ! i) # post \<and>
     length (filter isCustody pre) = i \<and>
     ((post \<noteq> [] \<and> isGap (hd post)) \<longleftrightarrow>
      (Suc i < length cs \<and> gapOf pd (cs ! i) (cs ! Suc i) \<noteq> []))"
proof (induction pd cs arbitrary: i rule: timelineOf.induct)
  case (1 pd)
  then show ?case by simp
next
  case (2 pd r)
  then have "i = 0" by simp
  then have "timelineOf pd [r] = [] @ custodyOf ([r] ! i) # [] \<and>
     length (filter isCustody []) = i \<and>
     (([] \<noteq> [] \<and> isGap (hd [])) \<longleftrightarrow>
      (Suc i < length [r] \<and> gapOf pd ([r] ! i) ([r] ! Suc i) \<noteq> []))"
    by simp
  then show ?case by blast
next
  case (3 pd r nxt rs)
  obtain t where t: "timelineOf pd (nxt # rs) = custodyOf nxt # t"
    using timelineOf_Cons by blast
  show ?case
  proof (cases i)
    case 0
    let ?post = "gapOf pd r nxt @ timelineOf pd (nxt # rs)"
    have gap: "(?post \<noteq> [] \<and> isGap (hd ?post)) \<longleftrightarrow> gapOf pd r nxt \<noteq> []"
      using gapOf_cases [of pd r nxt] t by auto
    have "timelineOf pd (r # nxt # rs) = [] @ custodyOf ((r # nxt # rs) ! i) # ?post \<and>
       length (filter isCustody []) = i \<and>
       ((?post \<noteq> [] \<and> isGap (hd ?post)) \<longleftrightarrow>
        (Suc i < length (r # nxt # rs) \<and>
         gapOf pd ((r # nxt # rs) ! i) ((r # nxt # rs) ! Suc i) \<noteq> []))"
      using 0 gap by simp
    then show ?thesis by blast
  next
    case (Suc j)
    with "3.prems" have j: "j < length (nxt # rs)" by simp
    from "3.IH" [OF j] obtain pre post where
      eq: "timelineOf pd (nxt # rs) = pre @ custodyOf ((nxt # rs) ! j) # post" and
      len: "length (filter isCustody pre) = j" and
      gp: "(post \<noteq> [] \<and> isGap (hd post)) \<longleftrightarrow>
           (Suc j < length (nxt # rs) \<and> gapOf pd ((nxt # rs) ! j) ((nxt # rs) ! Suc j) \<noteq> [])"
      by blast
    let ?pre = "custodyOf r # gapOf pd r nxt @ pre"
    have "timelineOf pd (r # nxt # rs) = ?pre @ custodyOf ((r # nxt # rs) ! i) # post"
      using eq Suc by simp
    moreover have "length (filter isCustody ?pre) = i"
      using len Suc by (simp add: filter_custody_gapOf)
    moreover have "(post \<noteq> [] \<and> isGap (hd post)) \<longleftrightarrow>
        (Suc i < length (r # nxt # rs) \<and>
         gapOf pd ((r # nxt # rs) ! i) ((r # nxt # rs) ! Suc i) \<noteq> [])"
      using gp Suc by simp
    ultimately show ?thesis by blast
  qed
qed

lemma gap_entry_form:
  "e \<in> set (timelineOf pd cs) \<Longrightarrow> isGap e \<Longrightarrow>
   \<exists>g. 0 < g \<and> e = OUT_OF_CUSTODY g (g div 86400000) (g mod 86400000 div 3600000)
                        (g mod 3600000 div 60000) (startDate e) (endDate e)"
proof (induction pd cs rule: timelineOf.induct)
  case (1 pd)
  then show ?case by simp
next
  case (2 pd r)
  then show ?case by auto
next
  case (3 pd r nxt rs)
  from "3.prems" have "e \<in> set (gapOf pd r nxt) \<or> e \<in> set (timelineOf pd (nxt # rs))"
    by auto
  then show ?case
  proof
    assume "e \<in> set (gapOf pd r nxt)"
    then show ?thesis using gapOf_cases [of pd r nxt] by auto
  next
    assume "e \<in> set (timelineOf pd (nxt # rs))"
    then show ?thesis using "3.IH" "3.prems"(2) by blast
  qed
qed

subsection \<open>Arithmetic of the decomposition\<close>

lemma decomposition_bounds:
  fixes g :: int
  assumes "0 < g"
  shows "0 \<le> g div 86400000"
    and "0 \<le> g mod 86400000 div 3600000" and "g mod 86400000 div 3600000 < 24"
    and "0 \<le> g mod 3600000 div 60000" and "g mod 3600000 div 60000 < 60"
    and "g div 86400000 * 86400000 + g mod 86400000 div 3600000 * 3600000
           + g mod 3600000 div 60000 * 60000 \<le> g"
    and "g < g div 86400000 * 86400000 + g mod 86400000 div 3600000 * 3600000
           + (g mod 3600000 div 60000 + 1) * 60000"
proof -
  define d where "d = g div 86400000"
  define r1 where "r1 = g mod 86400000"
  define h where "h = r1 div 3600000"
  define r2 where "r2 = g mod 3600000"
  define m where "m = r2 div 60000"
  define r3 where "r3 = r2 mod 60000"
  have r1: "0 \<le> r1" "r1 < 86400000" by (simp_all add: r1_def)
  have r2: "0 \<le> r2" "r2 < 3600000" by (simp_all add: r2_def)
  have r3: "0 \<le> r3" "r3 < 60000" by (simp_all add: r3_def)
  have "r1 mod 3600000 = r2"
    unfolding r1_def r2_def by (rule mod_mod_cancel) simp
  then have e1: "r1 = h * 3600000 + r2"
    unfolding h_def by (metis div_mult_mod_eq)
  have e0: "g = d * 86400000 + r1"
    unfolding r1_def d_def by simp
  have e2: "r2 = m * 60000 + r3"
    unfolding r3_def m_def by simp
  have d0: "0 \<le> d"
    unfolding d_def using assms by (simp add: pos_imp_zdiv_nonneg_iff)
  have h0: "0 \<le> h"
    unfolding h_def using r1 by (simp add: pos_imp_zdiv_nonneg_iff)
  have h1: "h < 24"
    unfolding h_def using r1 by simp
  have m0: "0 \<le> m"
    unfolding m_def using r2 by (simp add: pos_imp_zdiv_nonneg_iff)
  have m1: "m < 60"
    unfolding m_def using r2 by simp
  have lo: "d * 86400000 + h * 3600000 + m * 60000 \<le> g"
    using e0 e1 e2 r3 by linarith
  have "g < d * 86400000 + h * 3600000 + m * 60000 + 60000"
    using e0 e1 e2 r3 by linarith
  then have hi: "g < d * 86400000 + h * 3600000 + (m + 1) * 60000"
    by (simp add: algebra_simps)
  show "0 \<le> g div 86400000" using d0 by (simp only: d_def)
  show "0 \<le> g mod 86400000 div 3600000" using h0 by (simp only: h_def r1_def)
  show "g mod 86400000 div 3600000 < 24" using h1 by (simp only: h_def r1_def)
  show "0 \<le> g mod 3600000 div 60000" using m0 by (simp only: m_def r2_def)
  show "g mod 3600000 div 60000 < 60" using m1 by (simp only: m_def r2_def)
  show "g div 86400000 * 86400000 + g mod 86400000 div 3600000 * 3600000
           + g mod 3600000 div 60000 * 60000 \<le> g"
    using lo by (simp only: d_def h_def m_def r1_def r2_def)
  show "g < g div 86400000 * 86400000 + g mod 86400000 div 3600000 * 3600000
           + (g mod 3600000 div 60000 + 1) * 60000"
    using hi by (simp only: d_def h_def m_def r1_def r2_def)
qed

subsection \<open>The comparator orders by the intake key\<close>

lemma newDateOrZero_key:
  "intakeParses pd r \<Longrightarrow> newDateOrZero pd (savin_intakedate r) = Some (intakeKey pd r)"
  by (cases "savin_intakedate r")
     (auto simp: intakeParses_def newDateOrZero_def intakeKey_def timeClip_def
           split: option.splits)

lemma sortCompare_key:
  "intakeParses pd a \<Longrightarrow> intakeParses pd b \<Longrightarrow>
   sortCompare (compareFn pd) a b = intakeKey pd a - intakeKey pd b"
  by (simp add: sortCompare_def compareFn_def newDateOrZero_key)

lemma placeInto_insort_key:
  "intakeParses pd a \<Longrightarrow> \<forall>b\<in>set bs. intakeParses pd b \<Longrightarrow>
   placeInto (compareFn pd) a bs = insort_key (intakeKey pd) a bs"
  by (induction bs) (auto simp: sortCompare_key)

lemma arraySort_sort_key:
  "\<forall>r\<in>set cs. intakeParses pd r \<Longrightarrow>
   arraySort (compareFn pd) cs = sort_key (intakeKey pd) cs"
proof (induction cs)
  case Nil
  then show ?case by simp
next
  case (Cons a cs)
  then have ih: "arraySort (compareFn pd) cs = sort_key (intakeKey pd) cs" by simp
  have "\<forall>b\<in>set (sort_key (intakeKey pd) cs). intakeParses pd b"
    using Cons.prems by simp
  then show ?case
    using Cons.prems ih by (simp add: placeInto_insort_key sort_key_def)
qed

subsection \<open>The scenario of the specification, evaluated\<close>

lemma isoParse_empty: "isoParse [] = None"
  by (simp add: isoParse_def)

lemma sorted_scenario: "arraySort (compareFn isoParse) [recB, recA] = [recA, recB]"
  by code_simp

lemma scenario_timeline:
  "processCustodyData isoParse now iid [recB, recA] =
     \<lparr> iicId = iid, totalRecords = 2,
       records =
         [CUSTODY (JStr ''A'') (JStr ''F1'') (JStr ''2020-01-01'') (JStr ''2020-02-01'') False,
          OUT_OF_CUSTODY 2505600000 29 0 0 (JStr ''2020-02-01'') (JStr ''2020-03-01''),
          CUSTODY (JStr ''B'') (JStr ''F2'') (JStr ''2020-03-01'') JNull True],
       retrievedAt = now, currentlyInCustody = True \<rparr>"
  by code_simp


subsection \<open>Auxiliary facts\<close>


lemma gapFollows_gapOf:
  "pd [] = None \<Longrightarrow>
   gapFollows pd cs i \<longleftrightarrow> (Suc i < length cs \<and> gapOf pd (cs ! i) (cs ! Suc i) \<noteq> [])"
  using gapOf_nonempty_iff [of pd "cs ! i" "cs ! Suc i"] by (auto simp: gapFollows_def)

lemma summary_flag:
  "currentlyInCustody (processCustodyData pd now iid cd) =
     (cd \<noteq> [] \<and> \<not> truthy (idoc_releasedate (last (arraySort (compareFn pd) cd))))"
proof (cases "cd = []")
  case True
  then show ?thesis by (simp add: processCustodyData_def)
next
  case False
  then have ne: "arraySort (compareFn pd) cd \<noteq> []" by (simp add: arraySort_Nil_iff)
  then show ?thesis
    using False by (simp add: processCustodyData_def Let_def last_conv_nth)
qed

lemma falsy_iff:
  "\<not> truthy v \<longleftrightarrow> v = JUndefined \<or> v = JNull \<or> v = JFalse \<or> v = JZero \<or> v = JStr []"
  by (cases v) auto

subsection \<open>The sorted list is chronological\<close>

text \<open>
  When every intake date that is given parses, the sorted list is the stable ascending
  arrangement of the records by intake time, and its last record is a record of the
  latest intake time: of the records with that time, the one that stands last in the
  input.
\<close>

lemma sort_facts:
  assumes "\<forall>r\<in>set cd. intakeParses pd r"
  shows "arraySort (compareFn pd) cd = sort_key (intakeKey pd) cd"
    and "sorted (map (intakeKey pd) (arraySort (compareFn pd) cd))"
    and "mset (arraySort (compareFn pd) cd) = mset cd"
    and "set (arraySort (compareFn pd) cd) = set cd"
proof -
  show eq: "arraySort (compareFn pd) cd = sort_key (intakeKey pd) cd"
    using assms by (rule arraySort_sort_key)
  show "sorted (map (intakeKey pd) (arraySort (compareFn pd) cd))" by (simp add: eq)
  show "mset (arraySort (compareFn pd) cd) = mset cd" by (simp add: eq)
  show "set (arraySort (compareFn pd) cd) = set cd" by (simp add: eq)
qed

lemma last_filter_last: "xs \<noteq> [] \<Longrightarrow> P (last xs) \<Longrightarrow> last (filter P xs) = last xs"
  by (induction xs rule: rev_induct) auto

lemma last_is_latest:
  assumes "\<forall>r\<in>set cd. intakeParses pd r" and "cd \<noteq> []"
  shows "last (arraySort (compareFn pd) cd) \<in> set cd"
    and "\<forall>r\<in>set cd. intakeKey pd r \<le> intakeKey pd (last (arraySort (compareFn pd) cd))"
    and "last (arraySort (compareFn pd) cd) =
           last (filter (\<lambda>r. intakeKey pd r = intakeKey pd (last (arraySort (compareFn pd) cd))) cd)"
proof -
  let ?s = "arraySort (compareFn pd) cd"
  note f = sort_facts [OF assms(1)]
  have ne: "?s \<noteq> []" using assms(2) by (simp add: arraySort_Nil_iff)
  show mem: "last ?s \<in> set cd"
    using last_in_set [OF ne] f(4) by simp
  show "\<forall>r\<in>set cd. intakeKey pd r \<le> intakeKey pd (last ?s)"
  proof
    fix r
    assume "r \<in> set cd"
    then have "r \<in> set ?s" using f(4) by simp
    then obtain a where a: "a < length ?s" "?s ! a = r"
      by (auto simp: in_set_conv_nth)
    have "map (intakeKey pd) ?s ! a \<le> map (intakeKey pd) ?s ! (length ?s - 1)"
      using sorted_nth_mono [OF f(2), of a "length ?s - 1"] a(1) by simp
    then show "intakeKey pd r \<le> intakeKey pd (last ?s)"
      using a ne by (simp add: last_conv_nth)
  qed
  have "filter (\<lambda>r. intakeKey pd r = intakeKey pd (last ?s)) ?s =
        filter (\<lambda>r. intakeKey pd r = intakeKey pd (last ?s)) cd"
    by (simp add: f(1) sort_key_stable)
  moreover have "last (filter (\<lambda>r. intakeKey pd r = intakeKey pd (last ?s)) ?s) = last ?s"
    using ne by (simp add: last_filter_last)
  ultimately show "last ?s =
           last (filter (\<lambda>r. intakeKey pd r = intakeKey pd (last ?s)) cd)"
    by simp
qed

subsection \<open>The examples, evaluated\<close>

lemma parses_examples:
  "intakeParses isoParse recA" "intakeParses isoParse recB"
  "intakeParses isoParse recF" "intakeParses isoParse recG"
  "intakeParses isoParse recE" "intakeParses isoParse recZ"
  "intakeParses isoParse recOld"
  by code_simp+

lemma sorted_ties: "arraySort (compareFn isoParse) [recB, recG, recA, recF] = [recF, recG, recA, recB]"
  by code_simp



subsection \<open>Length and shape of the timeline\<close>

text \<open>
  The loop gives the entry list its length and its shape whatever the order of the list
  it walks: these facts do not depend on the outcome of the sort.
\<close>

lemma loop_shape_in_any_order:
  assumes "cs \<noteq> []" and "pd [] = None"
  shows "length (processLoop pd cs 0 []) =
           length cs + length (filter (gapFollows pd cs) [0..<length cs])"
    and "alternating (processLoop pd cs 0 [])"
    and "filter isCustody (processLoop pd cs 0 []) = map custodyOf cs"
  using assms
  by (simp_all add: processLoop_timelineOf length_timelineOf alternating_timelineOf
        filter_custody_timelineOf)



subsection \<open>The summary flag\<close>

text \<open>
  Claim C2, as amended. When every intake date that is given parses, the summary field
  \<open>currentlyInCustody\<close> is true exactly when the input is not empty and the release date
  of the chronologically last record is falsy: missing, null, false, 0 or the empty
  string. The chronologically last record is the last of the list sorted by intake date,
  which is the stable ascending arrangement by intake time: a record of the input with
  the latest intake time and, of the records with that time, the one that stands last in
  the input. On the empty input the builder returns no entries, \<open>totalRecords = 0\<close> and
  \<open>currentlyInCustody = false\<close>.
\<close>
theorem summary_currentlyInCustody:
  assumes "\<forall>r\<in>set custodyData. intakeParses pd r"
  shows "currentlyInCustody (processCustodyData pd now iid custodyData) =
           (custodyData \<noteq> [] \<and>
            \<not> truthy (idoc_releasedate (last (arraySort (compareFn pd) custodyData))))
       \<and> (\<not> truthy (idoc_releasedate (last (arraySort (compareFn pd) custodyData))) \<longleftrightarrow>
            idoc_releasedate (last (arraySort (compareFn pd) custodyData))
              \<in> {JUndefined, JNull, JFalse, JZero, JStr []})
       \<and> arraySort (compareFn pd) custodyData = sort_key (intakeKey pd) custodyData
       \<and> (custodyData \<noteq> [] \<longrightarrow>
            last (arraySort (compareFn pd) custodyData) \<in> set custodyData \<and>
            (\<forall>r\<in>set custodyData.
               intakeKey pd r \<le> intakeKey pd (last (arraySort (compareFn pd) custodyData))) \<and>
            last (arraySort (compareFn pd) custodyData) =
              last (filter (\<lambda>r. intakeKey pd r =
                              intakeKey pd (last (arraySort (compareFn pd) custodyData)))
                      custodyData))
       \<and> records (processCustodyData pd now iid []) = []
       \<and> totalRecords (processCustodyData pd now iid []) = 0
       \<and> \<not> currentlyInCustody (processCustodyData pd now iid [])"
proof -
  let ?l = "last (arraySort (compareFn pd) custodyData)"
  have flag: "currentlyInCustody (processCustodyData pd now iid custodyData) =
           (custodyData \<noteq> [] \<and> \<not> truthy (idoc_releasedate ?l))"
    by (rule summary_flag)
  have falsy: "\<not> truthy (idoc_releasedate ?l) \<longleftrightarrow>
            idoc_releasedate ?l \<in> {JUndefined, JNull, JFalse, JZero, JStr []}"
    using falsy_iff [of "idoc_releasedate ?l"] by auto
  have eq: "arraySort (compareFn pd) custodyData = sort_key (intakeKey pd) custodyData"
    using assms by (rule sort_facts(1))
  have lst: "custodyData \<noteq> [] \<longrightarrow>
            ?l \<in> set custodyData \<and>
            (\<forall>r\<in>set custodyData. intakeKey pd r \<le> intakeKey pd ?l) \<and>
            ?l = last (filter (\<lambda>r. intakeKey pd r = intakeKey pd ?l) custodyData)"
    using last_is_latest [OF assms] by blast
  have e1: "records (processCustodyData pd now iid []) = []"
    by (simp add: records_process)
  have e2: "totalRecords (processCustodyData pd now iid []) = 0"
    by (simp add: processCustodyData_def)
  have e3: "\<not> currentlyInCustody (processCustodyData pd now iid [])"
    by (simp add: summary_flag)
  show ?thesis
    by (intro conjI flag falsy eq lst e1 e2 e3)
qed

theorem summary_currentlyInCustody_witness:
  "intakeParses isoParse recB \<and> intakeParses isoParse recA \<and> [recB, recA] \<noteq> [] \<and>
   last [recA, recB] = recB \<and> idoc_releasedate recB = JNull \<and>
   intakeKey isoParse recA \<le> intakeKey isoParse recB \<and>
   currentlyInCustody (processCustodyData isoParse ''t'' ''id'' [recB, recA])"
proof -
  have p: "\<forall>r\<in>set [recB, recA]. intakeParses isoParse r"
    by (simp add: parses_examples)
  note w = summary_currentlyInCustody
          [where pd = isoParse and custodyData = "[recB, recA]" and now = "''t''"
             and iid = "''id''", OF p, unfolded sorted_scenario]
  have ne: "[recB, recA] \<noteq> []" by simp
  have l: "last [recA, recB] = recB" by simp
  have r: "idoc_releasedate recB = JNull" by (simp add: recB_def)
  have flag: "currentlyInCustody (processCustodyData isoParse ''t'' ''id'' [recB, recA])"
    using w [THEN conjunct1] by (simp add: r)
  have "\<forall>r\<in>set [recB, recA]. intakeKey isoParse r \<le> intakeKey isoParse (last [recA, recB])"
    using w [THEN conjunct2, THEN conjunct2, THEN conjunct2, THEN conjunct1] ne by blast
  then have key: "intakeKey isoParse recA \<le> intakeKey isoParse recB"
    by (simp only: l list.set ball_simps insert_iff) 
  show ?thesis
    by (intro conjI parses_examples(2) parses_examples(1) ne l r key flag)
qed

text \<open>
  Claim C2 as stated has the summary field true exactly when the release date of the
  chronologically last record is absent. For the records \<open>recE\<close> and \<open>recA\<close> the last
  record by intake date is \<open>recE\<close>, whose release date is given, as the empty string, and
  the summary field is true.
\<close>

theorem empty_release_counts_as_in_custody:
  "intakeParses isoParse recE \<and> intakeParses isoParse recA \<and>
   arraySort (compareFn isoParse) [recE, recA] = [recA, recE] \<and>
   intakeKey isoParse recA < intakeKey isoParse recE \<and>
   idoc_releasedate recE = JStr [] \<and>
   hasDate (idoc_releasedate recE) \<and>
   currentlyInCustody (processCustodyData isoParse ''t'' ''id'' [recE, recA])"
  by code_simp

subsection \<open>When a gap entry is emitted\<close>

text \<open>
  Claim C3. Let every intake date that is given parse, so that the sorted list is the
  stable ascending arrangement of the records by intake time. For every position \<open>i\<close> of
  the sorted list, the custody entry of record \<open>i\<close> (the entry with \<open>i\<close> custody entries
  before it) is directly followed by a gap entry if and only if record \<open>i\<close> has a release
  date, record \<open>i + 1\<close> exists and has an intake date, and the intake minus the release is
  strictly positive. So a null release date, a zero or negative difference, and a missing
  or unparseable date on either side all suppress the gap; and every gap entry of the
  timeline has a strictly positive duration.
\<close>
theorem gap_entry_iff:
  assumes "i < length custodyData" and "pd [] = None"
    and "\<forall>r\<in>set custodyData. intakeParses pd r"
  shows "(\<exists>pre post.
            records (processCustodyData pd now iid custodyData) =
              pre @ custodyOf (arraySort (compareFn pd) custodyData ! i) # post \<and>
            length (filter isCustody pre) = i \<and>
            ((post \<noteq> [] \<and> isGap (hd post)) \<longleftrightarrow>
               gapFollows pd (arraySort (compareFn pd) custodyData) i))
       \<and> arraySort (compareFn pd) custodyData = sort_key (intakeKey pd) custodyData
       \<and> (\<forall>e\<in>set (records (processCustodyData pd now iid custodyData)).
            isGap e \<longrightarrow> 0 < durationMs e)"
proof -
  let ?s = "arraySort (compareFn pd) custodyData"
  have i: "i < length ?s" using assms(1) by (simp add: length_arraySort)
  from timelineOf_split [OF i, of pd] obtain pre post where
    "timelineOf pd ?s = pre @ custodyOf (?s ! i) # post"
    "length (filter isCustody pre) = i"
    "(post \<noteq> [] \<and> isGap (hd post)) \<longleftrightarrow> (Suc i < length ?s \<and> gapOf pd (?s ! i) (?s ! Suc i) \<noteq> [])"
    by blast
  then have "records (processCustodyData pd now iid custodyData) = pre @ custodyOf (?s ! i) # post \<and>
            length (filter isCustody pre) = i \<and>
            ((post \<noteq> [] \<and> isGap (hd post)) \<longleftrightarrow> gapFollows pd ?s i)"
    using gapFollows_gapOf [of pd ?s i] assms(2) by (simp add: records_process)
  then have first: "\<exists>pre post.
            records (processCustodyData pd now iid custodyData) = pre @ custodyOf (?s ! i) # post \<and>
            length (filter isCustody pre) = i \<and>
            ((post \<noteq> [] \<and> isGap (hd post)) \<longleftrightarrow> gapFollows pd ?s i)"
    by blast
  have eq: "?s = sort_key (intakeKey pd) custodyData"
    using assms(3) by (rule sort_facts(1))
  have second: "\<forall>e\<in>set (records (processCustodyData pd now iid custodyData)). isGap e \<longrightarrow> 0 < durationMs e"
  proof (intro ballI impI)
    fix e
    assume "e \<in> set (records (processCustodyData pd now iid custodyData))" and g: "isGap e"
    then have "e \<in> set (timelineOf pd ?s)" by (simp add: records_process)
    from gap_entry_form [OF this g] obtain d where "0 < d"
      "e = OUT_OF_CUSTODY d (d div 86400000) (d mod 86400000 div 3600000)
                        (d mod 3600000 div 60000) (startDate e) (endDate e)"
      by blast
    then show "0 < durationMs e" by (metis entry.sel(6))
  qed
  show ?thesis
    by (intro conjI first eq second)
qed

theorem gap_entry_iff_witness:
  "0 < length [recB, recA] \<and> isoParse [] = None \<and>
   intakeParses isoParse recB \<and> intakeParses isoParse recA \<and>
   sort_key (intakeKey isoParse) [recB, recA] = [recA, recB] \<and>
   gapFollows isoParse [recA, recB] 0 \<and>
   (\<exists>pre post. records (processCustodyData isoParse ''t'' ''id'' [recB, recA]) =
        pre @ custodyOf recA # post \<and>
      length (filter isCustody pre) = 0 \<and> post \<noteq> [] \<and> isGap (hd post)) \<and>
   \<not> gapFollows isoParse [recA, recB] 1"
proof -
  have lt: "0 < length [recB, recA]" by simp
  have p: "\<forall>r\<in>set [recB, recA]. intakeParses isoParse r"
    by (simp add: parses_examples)
  have g0: "gapFollows isoParse [recA, recB] 0" by code_simp
  have g1: "\<not> gapFollows isoParse [recA, recB] 1" by code_simp
  note w = gap_entry_iff
            [where pd = isoParse and custodyData = "[recB, recA]" and now = "''t''"
               and iid = "''id''" and i = 0, OF lt isoParse_empty p, unfolded sorted_scenario]
  from w [THEN conjunct1] g0
  have ex: "\<exists>pre post. records (processCustodyData isoParse ''t'' ''id'' [recB, recA]) =
        pre @ custodyOf recA # post \<and>
      length (filter isCustody pre) = 0 \<and> post \<noteq> [] \<and> isGap (hd post)"
    by simp
  note eq = w [THEN conjunct2, THEN conjunct1, symmetric]
  show ?thesis
    by (intro conjI lt isoParse_empty parses_examples(2) parses_examples(1) eq g0 ex g1)
qed

lemma gap_entry_fields:
  assumes "e \<in> set (records (processCustodyData pd now iid cd))" and "isGap e"
  shows "0 < durationMs e" 
    and "days e = durationMs e div 86400000"
    and "hours e = durationMs e mod 86400000 div 3600000"
    and "minutes e = durationMs e mod 3600000 div 60000"
proof -
  from assms(1) have "e \<in> set (timelineOf pd (arraySort (compareFn pd) cd))"
    by (simp add: records_process)
  from gap_entry_form [OF this assms(2)] obtain g where g: "0 < g"
      "e = OUT_OF_CUSTODY g (g div 86400000) (g mod 86400000 div 3600000)
                        (g mod 3600000 div 60000) (startDate e) (endDate e)"
    by blast
  have sel: "durationMs e = g" "days e = g div 86400000"
    "hours e = g mod 86400000 div 3600000" "minutes e = g mod 3600000 div 60000"
    by (subst g(2), simp)+
  show "0 < durationMs e" using g(1) sel by simp
  show "days e = durationMs e div 86400000" using sel by simp
  show "hours e = durationMs e mod 86400000 div 3600000" using sel by simp
  show "minutes e = durationMs e mod 3600000 div 60000" using sel by simp
qed


subsection \<open>The decomposition of a gap\<close>



text \<open>
  Claim C9. Every gap entry the timeline builder emits has \<open>0 \<le> hours < 24\<close>,
  \<open>0 \<le> minutes < 60\<close>, \<open>days \<ge> 0\<close>, and its duration lies between
  \<open>days * 86400000 + hours * 3600000 + minutes * 60000\<close> (inclusive) and the same
  with \<open>minutes + 1\<close> (exclusive).
\<close>
theorem gap_fields_consistent:
  "\<forall>e\<in>set (records (processCustodyData pd now iid custodyData)). isGap e \<longrightarrow>
     0 \<le> hours e \<and> hours e < 24 \<and> 0 \<le> minutes e \<and> minutes e < 60 \<and> 0 \<le> days e \<and>
     days e * 86400000 + hours e * 3600000 + minutes e * 60000 \<le> durationMs e \<and>
     durationMs e < days e * 86400000 + hours e * 3600000 + (minutes e + 1) * 60000"
proof (intro ballI impI)
  fix e
  assume e: "e \<in> set (records (processCustodyData pd now iid custodyData))" and g: "isGap e"
  note f = gap_entry_fields [OF e g]
  note b = decomposition_bounds [OF f(1)]
  show "0 \<le> hours e \<and> hours e < 24 \<and> 0 \<le> minutes e \<and> minutes e < 60 \<and> 0 \<le> days e \<and>
     days e * 86400000 + hours e * 3600000 + minutes e * 60000 \<le> durationMs e \<and>
     durationMs e < days e * 86400000 + hours e * 3600000 + (minutes e + 1) * 60000"
    unfolding f(2,3,4) using b by blast
qed

theorem gap_fields_consistent_witness:
  "records (processCustodyData isoParse ''t'' ''id'' [recB, recA]) ! 1 =
     OUT_OF_CUSTODY 2505600000 29 0 0 (JStr ''2020-02-01'') (JStr ''2020-03-01'') \<and>
   records (processCustodyData isoParse ''t'' ''id'' [recB, recA]) ! 1
     \<in> set (records (processCustodyData isoParse ''t'' ''id'' [recB, recA])) \<and>
   isGap (records (processCustodyData isoParse ''t'' ''id'' [recB, recA]) ! 1) \<and>
   hours (records (processCustodyData isoParse ''t'' ''id'' [recB, recA]) ! 1) < 24 \<and>
   minutes (records (processCustodyData isoParse ''t'' ''id'' [recB, recA]) ! 1) < 60 \<and>
   (29 :: int) * 86400000 + 0 * 3600000 + 0 * 60000 \<le> 2505600000 \<and>
   (2505600000 :: int) < 29 * 86400000 + 0 * 3600000 + (0 + 1) * 60000"
  using gap_fields_consistent
          [where pd = isoParse and custodyData = "[recB, recA]" and now = "''t''" and iid = "''id''"]
  by (simp add: scenario_timeline)

subsection \<open>The sort\<close>

text \<open>
  Claim C5, as amended. When every intake date that is given is a non-empty string the
  engine parses, the sort done by the timeline builder is the stable ascending sort on
  the key "time value of the intake date, and 0 (the epoch) for a record without intake
  date": the result equals \<open>sort_key\<close> on that key, it is ordered by the key, it is a
  permutation of the input, and records with equal keys keep their original relative
  order. A record without intake date is keyed 0: in the sorted list it stands before
  every record taken in after the epoch and after every record taken in before the
  epoch. The custody entries of the timeline follow this order.
\<close>
theorem sort_is_stable_by_intake:
  assumes "\<forall>r\<in>set custodyData. intakeParses pd r"
  shows "arraySort (compareFn pd) custodyData = sort_key (intakeKey pd) custodyData
       \<and> sorted (map (intakeKey pd) (arraySort (compareFn pd) custodyData))
       \<and> mset (arraySort (compareFn pd) custodyData) = mset custodyData
       \<and> (\<forall>k. filter (\<lambda>r. intakeKey pd r = k) (arraySort (compareFn pd) custodyData) =
               filter (\<lambda>r. intakeKey pd r = k) custodyData)
       \<and> (\<forall>r. \<not> hasDate (savin_intakedate r) \<longrightarrow> intakeKey pd r = 0)
       \<and> (\<forall>i j. i < length custodyData \<longrightarrow> j < length custodyData \<longrightarrow>
                 \<not> hasDate (savin_intakedate (arraySort (compareFn pd) custodyData ! i)) \<longrightarrow>
                 (0 < intakeKey pd (arraySort (compareFn pd) custodyData ! j) \<longrightarrow> i < j) \<and>
                 (intakeKey pd (arraySort (compareFn pd) custodyData ! j) < 0 \<longrightarrow> j < i))
       \<and> filter isCustody (records (processCustodyData pd now iid custodyData)) =
           map custodyOf (sort_key (intakeKey pd) custodyData)"
proof -
  let ?s = "arraySort (compareFn pd) custodyData"
  have eq: "?s = sort_key (intakeKey pd) custodyData"
    using assms by (rule arraySort_sort_key)
  have srt: "sorted (map (intakeKey pd) ?s)"
    by (simp add: eq)
  have perm: "mset ?s = mset custodyData"
    by (simp add: eq)
  have stable: "\<forall>k. filter (\<lambda>r. intakeKey pd r = k) ?s =
               filter (\<lambda>r. intakeKey pd r = k) custodyData"
    by (simp add: eq sort_key_stable)
  have zero: "\<forall>r. \<not> hasDate (savin_intakedate r) \<longrightarrow> intakeKey pd r = 0"
    by (simp add: intakeKey_def)
  have out: "filter isCustody (records (processCustodyData pd now iid custodyData)) =
           map custodyOf (sort_key (intakeKey pd) custodyData)"
    by (simp add: records_process filter_custody_timelineOf eq)
  have mono: "intakeKey pd (?s ! a) \<le> intakeKey pd (?s ! b)"
    if "a \<le> b" "b < length custodyData" for a b
  proof -
    have "map (intakeKey pd) ?s ! a \<le> map (intakeKey pd) ?s ! b"
      using srt that by (simp add: sorted_iff_nth_mono length_arraySort)
    then show ?thesis using that by (simp add: length_arraySort)
  qed
  have place: "\<forall>i j. i < length custodyData \<longrightarrow> j < length custodyData \<longrightarrow>
                 \<not> hasDate (savin_intakedate (?s ! i)) \<longrightarrow>
                 (0 < intakeKey pd (?s ! j) \<longrightarrow> i < j) \<and>
                 (intakeKey pd (?s ! j) < 0 \<longrightarrow> j < i)"
  proof (intro allI impI conjI)
    fix i j
    assume i: "i < length custodyData" and j: "j < length custodyData"
      and a: "\<not> hasDate (savin_intakedate (?s ! i))"
    have k: "intakeKey pd (?s ! i) = 0" using a zero by blast
    show "i < j" if "0 < intakeKey pd (?s ! j)"
    proof (rule ccontr)
      assume "\<not> i < j"
      then have "j \<le> i" by simp
      from mono [OF this i] k that show False by simp
    qed
    show "j < i" if "intakeKey pd (?s ! j) < 0"
    proof (rule ccontr)
      assume "\<not> j < i"
      then have "i \<le> j" by simp
      from mono [OF this j] k that show False by simp
    qed
  qed
  show ?thesis
    by (intro conjI eq srt perm stable zero place out)
qed

theorem sort_is_stable_by_intake_witness:
  "intakeParses isoParse recB \<and> intakeParses isoParse recG \<and>
   intakeParses isoParse recA \<and> intakeParses isoParse recF \<and>
   arraySort (compareFn isoParse) [recB, recG, recA, recF] = [recF, recG, recA, recB] \<and>
   sort_key (intakeKey isoParse) [recB, recG, recA, recF] = [recF, recG, recA, recB] \<and>
   intakeKey isoParse recG = intakeKey isoParse recA \<and> intakeKey isoParse recF = 0"
proof -
  have p: "\<forall>r\<in>set [recB, recG, recA, recF]. intakeParses isoParse r"
    by (simp add: parses_examples)
  have k: "intakeKey isoParse recG = intakeKey isoParse recA" "intakeKey isoParse recF = 0"
    by code_simp+
  note w = sort_is_stable_by_intake [OF p, of "''t''" "''id''", unfolded sorted_ties]
  note eq = w [THEN conjunct1, symmetric]
  show ?thesis
    by (intro conjI parses_examples(2) parses_examples(4) parses_examples(1) parses_examples(3)
          sorted_ties eq k)
qed

text \<open>
  Claim C5 as stated has a record without intake date keyed as the earliest value. The
  key is the epoch, which is not the earliest time value: the record \<open>recOld\<close>, taken in
  on 1969-12-31, has a negative key and is sorted ahead of \<open>recF\<close>, which has no intake
  date, although \<open>recF\<close> stands first in the input.
\<close>

theorem absent_intake_is_not_earliest:
  "\<not> hasDate (savin_intakedate recF) \<and>
   intakeParses isoParse recF \<and> intakeParses isoParse recOld \<and>
   intakeKey isoParse recOld = - 86400000 \<and> intakeKey isoParse recF = 0 \<and>
   arraySort (compareFn isoParse) [recF, recOld] = [recOld, recF] \<and>
   filter isCustody (records (processCustodyData isoParse ''t'' ''id'' [recF, recOld])) =
     [custodyOf recOld, custodyOf recF]"
  by code_simp

subsection \<open>Falsy release dates\<close>



section \<open>Properties of the extractor and the endpoint\<close>

subsection \<open>Malformed identifiers\<close>

lemma digit_codes: "(48 \<le> n \<and> n \<le> 57) \<longleftrightarrow> n \<in> {48,49,50,51,52,53,54,55,56,57::nat}"
  by (simp only: insert_iff empty_iff) arith
lemma lower_codes: "(97 \<le> n \<and> n \<le> 102) \<longleftrightarrow> n \<in> {97,98,99,100,101,102::nat}"
  by (simp only: insert_iff empty_iff) arith
lemma upper_codes: "(65 \<le> n \<and> n \<le> 70) \<longleftrightarrow> n \<in> {65,66,67,68,69,70::nat}"
  by (simp only: insert_iff empty_iff) arith

lemma char_eq_code: "(c = x) \<longleftrightarrow> ((of_char c :: nat) = of_char x)"
  by simp

lemma mem_codes:
  "c \<in> set ''0123456789abcdefABCDEF-'' \<longleftrightarrow>
   (of_char c :: nat) \<in> {48,49,50,51,52,53,54,55,56,57} \<union> {97,98,99,100,101,102}
        \<union> {65,66,67,68,69,70} \<union> {45}"
  by (simp only: list.set insert_iff empty_iff Un_iff char_eq_code [of c])
     (simp del: of_char_eq_iff)

lemma idChar_iff: "idChar c \<longleftrightarrow> c \<in> set ''0123456789abcdefABCDEF-''"
  unfolding mem_codes idChar_def Let_def digit_codes lower_codes upper_codes by blast

lemma validIicId_matches: "validIicId s = matchesIdPattern s"
  by (simp add: validIicId_def matchesIdPattern_def idChar_iff [abs_def])

text \<open>
  Claim C6. For every identifier that does not match the pattern "36 characters, each a
  hexadecimal digit of either case or a hyphen", each of the four custody-history
  handlers modelled above answers HTTP 400 with \<open>error: 'Invalid IIC ID format'\<close> and
  makes no remote call; the identifier \<open>not-36-chars\<close> is such an identifier.
\<close>
theorem invalid_id_rejected_without_fetch:
  assumes "\<not> matchesIdPattern iicid"
  shows "custodyHistoryHandler e iicid =
           (HttpResponse 400 (ErrorBody ''Invalid IIC ID format'' None), [])
       \<and> inlineHandler e iicid =
           (HttpResponse 400 (ErrorBody ''Invalid IIC ID format'' None), [])
       \<and> strategiesHandler e iicid =
           (HttpResponse 400 (ErrorBody ''Invalid IIC ID format'' None), [])
       \<and> singlePassHandler e iicid =
           (HttpResponse 400 (ErrorBody ''Invalid IIC ID format'' None), [])"
  using assms
  by (simp add: custodyHistoryHandler_def inlineHandler_def strategiesHandler_def
        singlePassHandler_def validIicId_matches)

theorem invalid_id_rejected_without_fetch_witness:
  "\<not> matchesIdPattern ''not-36-chars'' \<and>
   status (fst (custodyHistoryHandler envBadJson ''not-36-chars'')) = 400 \<and>
   snd (custodyHistoryHandler envBadJson ''not-36-chars'') = [] \<and>
   status (fst (inlineHandler envBadJson ''not-36-chars'')) = 400 \<and>
   snd (inlineHandler envBadJson ''not-36-chars'') = [] \<and>
   status (fst (strategiesHandler envBadJson ''not-36-chars'')) = 400 \<and>
   snd (strategiesHandler envBadJson ''not-36-chars'') = [] \<and>
   status (fst (singlePassHandler envBadJson ''not-36-chars'')) = 400 \<and>
   snd (singlePassHandler envBadJson ''not-36-chars'') = []"
proof -
  have n: "\<not> matchesIdPattern ''not-36-chars''"
    by (simp add: matchesIdPattern_def)
  from invalid_id_rejected_without_fetch [OF n, of envBadJson] n show ?thesis
    by simp
qed

lemma sampleId_valid: "validIicId sampleId"
  by (simp add: validIicId_matches matchesIdPattern_def sampleId_def)

subsection \<open>The extraction loop\<close>

lemma extractLoop_Cons:
  "extractLoop rx jp (p # ps) html =
     (case strategyYield rx jp p html of
        None \<Rightarrow> extractLoop rx jp ps html
      | Some data \<Rightarrow> if firstNamed data then Some data else extractLoop rx jp ps html)"
proof (cases "rx p html")
  case None
  then show ?thesis by (simp add: strategyYield_def)
next
  case (Some m1)
  define jsonStr where "jsonStr = (if strIncludes m1 ''&quot;'' then unescapeEntities m1 else m1)"
  show ?thesis
  proof (cases "jp jsonStr")
    case (Inl msg)
    with Some show ?thesis
      by (simp add: strategyYield_def Let_def flip: jsonStr_def)
  next
    case (Inr data)
    have "(if 0 < length data
           then (case data ! 0 of
                   None \<Rightarrow> extractLoop rx jp ps html
                 | Some first \<Rightarrow>
                     if truthy (idoc_name first) then Some data else extractLoop rx jp ps html)
           else extractLoop rx jp ps html) =
          (if firstNamed data then Some data else extractLoop rx jp ps html)"
    proof (cases data)
      case Nil
      then show ?thesis by (simp add: firstNamed_def)
    next
      case (Cons x xs)
      then show ?thesis by (cases x) (simp_all add: firstNamed_def)
    qed
    with Some Inr show ?thesis
      by (simp add: strategyYield_def Let_def flip: jsonStr_def)
  qed
qed

lemma extractLoop_step:
  "strategyFails rx jp p html \<Longrightarrow> extractLoop rx jp (p # ps) html = extractLoop rx jp ps html"
  by (simp add: extractLoop_Cons strategyFails_def del: extractLoop.simps split: option.splits)

lemma extractLoop_hit:
  "strategyYield rx jp p html = Some data \<Longrightarrow> firstNamed data \<Longrightarrow>
   extractLoop rx jp (p # ps) html = Some data"
  by (simp add: extractLoop_Cons del: extractLoop.simps)

lemma strategy_cases:
  "strategyFails rx jp p html \<or>
   (\<exists>data. strategyYield rx jp p html = Some data \<and> firstNamed data)"
  by (auto simp: strategyFails_def split: option.splits)

lemma extractLoop_None_iff:
  "extractLoop rx jp ps html = None \<longleftrightarrow> (\<forall>p\<in>set ps. strategyFails rx jp p html)"
proof (induction ps)
  case Nil
  then show ?case by simp
next
  case (Cons p ps)
  from strategy_cases [of rx jp p html] show ?case
  proof
    assume f: "strategyFails rx jp p html"
    then show ?thesis using Cons by (simp add: extractLoop_step del: extractLoop.simps)
  next
    assume "\<exists>data. strategyYield rx jp p html = Some data \<and> firstNamed data"
    then obtain data where d: "strategyYield rx jp p html = Some data" "firstNamed data" by blast
    then have "\<not> strategyFails rx jp p html" by (simp add: strategyFails_def)
    then show ?thesis using extractLoop_hit [OF d] by (simp del: extractLoop.simps)
  qed
qed

lemma extractLoop_Some_iff:
  "extractLoop rx jp ps html = Some data \<longleftrightarrow>
   (\<exists>ps1 p ps2. ps = ps1 @ p # ps2 \<and> (\<forall>q\<in>set ps1. strategyFails rx jp q html) \<and>
      strategyYield rx jp p html = Some data \<and> firstNamed data)"
proof (induction ps)
  case Nil
  then show ?case by simp
next
  case (Cons a ps)
  from strategy_cases [of rx jp a html] show ?case
  proof
    assume f: "strategyFails rx jp a html"
    then have nohit: "\<not> (\<exists>d. strategyYield rx jp a html = Some d \<and> firstNamed d)"
      by (auto simp: strategyFails_def)
    have "extractLoop rx jp (a # ps) html = Some data \<longleftrightarrow> extractLoop rx jp ps html = Some data"
      using f by (simp add: extractLoop_step del: extractLoop.simps)
    also have "\<dots> \<longleftrightarrow> (\<exists>ps1 p ps2. ps = ps1 @ p # ps2 \<and> (\<forall>q\<in>set ps1. strategyFails rx jp q html) \<and>
      strategyYield rx jp p html = Some data \<and> firstNamed data)"
      by (rule Cons.IH)
    also have "\<dots> \<longleftrightarrow> (\<exists>ps1 p ps2. a # ps = ps1 @ p # ps2 \<and> (\<forall>q\<in>set ps1. strategyFails rx jp q html) \<and>
      strategyYield rx jp p html = Some data \<and> firstNamed data)"
    proof
      assume "\<exists>ps1 p ps2. ps = ps1 @ p # ps2 \<and> (\<forall>q\<in>set ps1. strategyFails rx jp q html) \<and>
        strategyYield rx jp p html = Some data \<and> firstNamed data"
      then obtain ps1 p ps2 where h: "ps = ps1 @ p # ps2" "\<forall>q\<in>set ps1. strategyFails rx jp q html"
        "strategyYield rx jp p html = Some data" "firstNamed data" by blast
      then have "a # ps = (a # ps1) @ p # ps2 \<and> (\<forall>q\<in>set (a # ps1). strategyFails rx jp q html) \<and>
        strategyYield rx jp p html = Some data \<and> firstNamed data"
        using f by simp
      then show "\<exists>ps1 p ps2. a # ps = ps1 @ p # ps2 \<and> (\<forall>q\<in>set ps1. strategyFails rx jp q html) \<and>
        strategyYield rx jp p html = Some data \<and> firstNamed data" by blast
    next
      assume "\<exists>ps1 p ps2. a # ps = ps1 @ p # ps2 \<and> (\<forall>q\<in>set ps1. strategyFails rx jp q html) \<and>
        strategyYield rx jp p html = Some data \<and> firstNamed data"
      then obtain ps1 p ps2 where h: "a # ps = ps1 @ p # ps2" "\<forall>q\<in>set ps1. strategyFails rx jp q html"
        "strategyYield rx jp p html = Some data" "firstNamed data" by blast
      have "ps1 \<noteq> []"
      proof
        assume "ps1 = []"
        with h(1) have "a = p" by simp
        with h(3,4) nohit show False by blast
      qed
      then obtain ps1' where "ps1 = a # ps1'" using h(1) by (cases ps1) auto
      with h have "ps = ps1' @ p # ps2 \<and> (\<forall>q\<in>set ps1'. strategyFails rx jp q html) \<and>
        strategyYield rx jp p html = Some data \<and> firstNamed data" by simp
      then show "\<exists>ps1 p ps2. ps = ps1 @ p # ps2 \<and> (\<forall>q\<in>set ps1. strategyFails rx jp q html) \<and>
        strategyYield rx jp p html = Some data \<and> firstNamed data" by blast
    qed
    finally show ?thesis .
  next
    assume "\<exists>d. strategyYield rx jp a html = Some d \<and> firstNamed d"
    then obtain d where d: "strategyYield rx jp a html = Some d" "firstNamed d" by blast
    then have nf: "\<not> strategyFails rx jp a html" by (simp add: strategyFails_def)
    have res: "extractLoop rx jp (a # ps) html = Some d" by (rule extractLoop_hit [OF d])
    show ?thesis
    proof
      assume "extractLoop rx jp (a # ps) html = Some data"
      with res have "data = d" by simp
      with d have "a # ps = [] @ a # ps \<and> (\<forall>q\<in>set []. strategyFails rx jp q html) \<and>
        strategyYield rx jp a html = Some data \<and> firstNamed data" by simp
      then show "\<exists>ps1 p ps2. a # ps = ps1 @ p # ps2 \<and> (\<forall>q\<in>set ps1. strategyFails rx jp q html) \<and>
        strategyYield rx jp p html = Some data \<and> firstNamed data" by blast
    next
      assume "\<exists>ps1 p ps2. a # ps = ps1 @ p # ps2 \<and> (\<forall>q\<in>set ps1. strategyFails rx jp q html) \<and>
        strategyYield rx jp p html = Some data \<and> firstNamed data"
      then obtain ps1 p ps2 where h: "a # ps = ps1 @ p # ps2" "\<forall>q\<in>set ps1. strategyFails rx jp q html"
        "strategyYield rx jp p html = Some data" "firstNamed data" by blast
      have "ps1 = []"
      proof (rule ccontr)
        assume "ps1 \<noteq> []"
        then have "a \<in> set ps1" using h(1) by (cases ps1) auto
        with h(2) nf show False by blast
      qed
      with h(1) have "p = a" by simp
      with h(3) d(1) have "data = d" by simp
      with res show "extractLoop rx jp (a # ps) html = Some data" by simp
    qed
  qed
qed

lemma extract_None_iff:
  "extractCustodyDataFromHTML rx jp html = None \<longleftrightarrow>
   (\<forall>p\<in>set patterns. strategyFails rx jp p html)"
  by (simp only: extractCustodyDataFromHTML_def extractLoop_None_iff)

subsection \<open>Arrays that hold null\<close>

lemma those_None_iff: "those xs = None \<longleftrightarrow> None \<in> set xs"
  by (induction xs) (auto split: option.splits)

lemma those_objects: "None \<notin> set xs \<Longrightarrow> those xs = Some (map the xs)"
proof (induction xs)
  case Nil
  then show ?case by simp
next
  case (Cons a xs)
  then show ?case by (cases a) simp_all
qed

lemma processElements_cases:
  "processElements pd now iicid data =
     (if holdsNull data then Inl TypeError
      else Inr (processCustodyData pd now iicid (objectsOf data)))"
proof (cases "holdsNull data")
  case True
  then have "those data = None" by (simp add: holdsNull_def those_None_iff)
  with True show ?thesis by (simp add: processElements_def)
next
  case False
  then have "those data = Some (objectsOf data)"
    by (simp add: holdsNull_def objectsOf_def those_objects)
  with False show ?thesis by (simp add: processElements_def)
qed

subsection \<open>Which strategy's result the extractor returns\<close>

text \<open>
  Claim C8, as amended. \<open>extractCustodyDataFromHTML\<close> returns the array of the first
  pattern, in the fixed order of \<open>patterns\<close>, that matches, whose capture parses, and
  whose array is not empty and has a first element with a truthy \<open>idoc_name\<close>; every
  pattern before it fails (no match, no parse, an empty array, or a first element that is
  null or has no truthy name) and does not end the extraction. It returns nothing exactly
  when every pattern fails. The elements after the first are not examined. Strategy 1 of
  \<open>extractCustodyData\<close> makes no check: when its pattern matches and the capture
  parses, the parsed array is returned as it is.
\<close>
theorem first_passing_strategy_is_returned:
  "(extractCustodyDataFromHTML rx jp html = Some data \<longleftrightarrow>
      (\<exists>ps1 p ps2. patterns = ps1 @ p # ps2 \<and>
         (\<forall>q\<in>set ps1. strategyFails rx jp q html) \<and>
         strategyYield rx jp p html = Some data \<and> firstNamed data))
   \<and> (extractCustodyDataFromHTML rx jp html = None \<longleftrightarrow>
        (\<forall>p\<in>set patterns. strategyFails rx jp p html))
   \<and> (\<forall>m parsed. regexMatch e ControlIdData html = Some m \<longrightarrow> jsonParse e m = Inr parsed \<longrightarrow>
         extractCustodyData e html = Some parsed)"
proof -
  have "\<forall>m parsed. regexMatch e ControlIdData html = Some m \<longrightarrow> jsonParse e m = Inr parsed \<longrightarrow>
         extractCustodyData e html = Some parsed"
    by (simp add: extractCustodyData_def controlIdStrategy_def)
  then show ?thesis
    by (simp only: extractCustodyDataFromHTML_def extractLoop_Some_iff extractLoop_None_iff
          simp_thms)
qed

lemma mixed_extract:
  "extractCustodyDataFromHTML (regexMatch envMixed) (jsonParse envMixed) htmlMixed =
     Some [Some recNamed, Some recBare]"
  by code_simp

lemma value_only_facts:
  "regexMatch envValueOnly ControlIdData htmlValueOnly = Some capValueOnly"
  "jsonParse envValueOnly capValueOnly = Inr [Some recBare]"
  "idoc_name recBare = JUndefined"
  "extractCustodyDataFromHTML (regexMatch envValueOnly) (jsonParse envValueOnly) htmlValueOnly
     = None"
  by code_simp+

theorem first_passing_strategy_is_returned_witness:
  "extractCustodyDataFromHTML (regexMatch envMixed) (jsonParse envMixed) htmlMixed =
     Some [Some recNamed, Some recBare] \<and>
   (\<exists>ps1 p ps2. patterns = ps1 @ p # ps2 \<and>
      list_all (\<lambda>q. strategyFails (regexMatch envMixed) (jsonParse envMixed) q htmlMixed) ps1 \<and>
      strategyYield (regexMatch envMixed) (jsonParse envMixed) p htmlMixed =
        Some [Some recNamed, Some recBare] \<and>
      firstNamed [Some recNamed, Some recBare]) \<and>
   regexMatch envValueOnly ControlIdData htmlValueOnly = Some capValueOnly \<and>
   jsonParse envValueOnly capValueOnly = Inr [Some recBare] \<and>
   extractCustodyData envValueOnly htmlValueOnly = Some [Some recBare]"
proof -
  note w = first_passing_strategy_is_returned
          [of "regexMatch envMixed" "jsonParse envMixed" htmlMixed "[Some recNamed, Some recBare]"
              envMixed]
  note v = first_passing_strategy_is_returned
          [of "regexMatch envValueOnly" "jsonParse envValueOnly" htmlValueOnly "[]"
              envValueOnly]
  from w [THEN conjunct1] mixed_extract have ex:
    "\<exists>ps1 p ps2. patterns = ps1 @ p # ps2 \<and>
      list_all (\<lambda>q. strategyFails (regexMatch envMixed) (jsonParse envMixed) q htmlMixed) ps1 \<and>
      strategyYield (regexMatch envMixed) (jsonParse envMixed) p htmlMixed =
        Some [Some recNamed, Some recBare] \<and>
      firstNamed [Some recNamed, Some recBare]"
    by (simp add: list_all_iff)
  have s1: "extractCustodyData envValueOnly htmlValueOnly = Some [Some recBare]"
    using v [THEN conjunct2, THEN conjunct2, rule_format, OF value_only_facts(1)
             value_only_facts(2)] .
  show ?thesis
    by (intro conjI mixed_extract ex value_only_facts(1) value_only_facts(2) s1)
qed

text \<open>
  Claim C8 as stated asks that the elements of the returned array have a name field. On
  the page \<open>htmlMixed\<close> the extractor returns an array whose second element has none.
\<close>

theorem unnamed_element_is_returned:
  "extractCustodyDataFromHTML (regexMatch envMixed) (jsonParse envMixed) htmlMixed =
     Some [Some recNamed, Some recBare] \<and>
   idoc_name recBare = JUndefined \<and> \<not> allNamed [Some recNamed, Some recBare]"
  by (simp add: mixed_extract allNamed_def recBare_def)

text \<open>
  On the page \<open>htmlValueOnly\<close> Strategy 1 of \<open>extractCustodyData\<close> returns an object
  without a name, where \<open>extractCustodyDataFromHTML\<close> returns nothing: its pattern asks
  only that the text \<open>"idoc_name"\<close> stand inside an object.
\<close>

lemma value_only_extracts:
  "extractCustodyData envValueOnly htmlValueOnly = Some [Some recBare]
   \<and> idoc_name recBare = JUndefined
   \<and> extractCustodyDataFromHTML (regexMatch envValueOnly) (jsonParse envValueOnly) htmlValueOnly
       = None"
  by code_simp

subsection \<open>What the handlers answer\<close>

lemma totalRecords_process: "totalRecords (processCustodyData pd now iicid cd) = length cd"
  by (simp add: processCustodyData_def Let_def length_arraySort)

lemma processElements_outcome:
  "holdsNull data \<Longrightarrow> processElements pd now iicid data = Inl TypeError"
  "\<not> holdsNull data \<Longrightarrow>
   \<exists>result. processElements pd now iicid data = Inr result \<and> totalRecords result = length data"
  by (simp_all add: processElements_cases totalRecords_process objectsOf_def)

lemma apiStrategy_None_iff:
  "apiStrategy e iicid = None \<longleftrightarrow>
   \<not> (\<exists>st frs sub data.
         apiFetch e iicid = Reply True st (ApiData (Array frs)) \<and>
         findSubgrid frs = Inr (Some sub) \<and> gridResponse sub = Some (Array data) \<and>
         \<not> holdsNull data)"
  by (auto simp: apiStrategy_def processElements_cases
           split: fetched.splits apiBody.splits arrayValue.splits sum.splits option.splits)

lemma server_page_ok:
  assumes "validIicId iicid" and "apiStrategy e iicid = None"
    and "pageFetch e iicid = Reply True st page"
  shows "extractCustodyDataFromHTML (regexMatch e) (jsonParse e) page = None \<Longrightarrow>
         custodyHistoryHandler e iicid =
           (HttpResponse 200
              (NoRecordsBody iicid [] (Some 0) ''No custody history found for this IIC ID'' None),
            [PostFormFieldValues iicid, GetIicInfo iicid])"
    and "extractCustodyDataFromHTML (regexMatch e) (jsonParse e) page = Some data \<Longrightarrow>
         (holdsNull data \<longrightarrow>
            custodyHistoryHandler e iicid =
              (HttpResponse 500
                 (ErrorBody ''Failed to fetch custody history'' (Some TypeErrorMessage)),
               [PostFormFieldValues iicid, GetIicInfo iicid])) \<and>
         (\<not> holdsNull data \<longrightarrow>
            (\<exists>result. custodyHistoryHandler e iicid =
                 (HttpResponse 200 (TimelineBody result), [PostFormFieldValues iicid, GetIicInfo iicid]) \<and>
               totalRecords result = length data))"
proof -
  show "custodyHistoryHandler e iicid =
           (HttpResponse 200
              (NoRecordsBody iicid [] (Some 0) ''No custody history found for this IIC ID'' None),
            [PostFormFieldValues iicid, GetIicInfo iicid])"
    if "extractCustodyDataFromHTML (regexMatch e) (jsonParse e) page = None"
    using assms that by (simp add: custodyHistoryHandler_def)
  show "(holdsNull data \<longrightarrow>
            custodyHistoryHandler e iicid =
              (HttpResponse 500
                 (ErrorBody ''Failed to fetch custody history'' (Some TypeErrorMessage)),
               [PostFormFieldValues iicid, GetIicInfo iicid])) \<and>
         (\<not> holdsNull data \<longrightarrow>
            (\<exists>result. custodyHistoryHandler e iicid =
                 (HttpResponse 200 (TimelineBody result), [PostFormFieldValues iicid, GetIicInfo iicid]) \<and>
               totalRecords result = length data))"
    if x: "extractCustodyDataFromHTML (regexMatch e) (jsonParse e) page = Some data"
  proof -
    from x have "firstNamed data"
      by (auto simp: extractCustodyDataFromHTML_def extractLoop_Some_iff)
    then have "data \<noteq> []" by (simp add: firstNamed_def)
    then show ?thesis
      using assms x processElements_outcome [of data "dateParse e" "clock e" iicid]
      by (auto simp: custodyHistoryHandler_def)
  qed
qed

lemma sectionData_failures:
  "regexMatch e FieldResponsesSection page = None \<or>
   (\<exists>m msg. regexMatch e FieldResponsesSection page = Some m \<and>
             jsonParseFieldResponses e m = Inl msg) \<or>
   (\<exists>m frs. regexMatch e FieldResponsesSection page = Some m \<and>
             jsonParseFieldResponses e m = Inr frs \<and>
             (findSubgrid frs = Inl TypeError \<or> findSubgrid frs = Inr None \<or>
              (\<exists>sub. findSubgrid frs = Inr (Some sub) \<and> gridResponse sub = Some Falsy)))
   \<Longrightarrow> sectionData e page = Falsy"
  by (auto simp: sectionData_def)

lemma fallbackData_failures:
  "regexMatch e IdocNameArray page = None \<or>
   (\<exists>m msg. regexMatch e IdocNameArray page = Some m \<and>
             jsonParse e (''['' @ m @ '']'') = Inl msg)
   \<Longrightarrow> fallbackData e page = Falsy"
  by (auto simp: fallbackData_def)

lemma inline_page_ok:
  assumes "validIicId iicid" and "pageFetch e iicid = Reply True st page"
  shows "inlineExtract e page = Falsy \<or> inlineExtract e page = Array [] \<or>
         inlineExtract e page = NotArray True \<Longrightarrow>
         inlineHandler e iicid =
           (HttpResponse 200
              (NoRecordsBody iicid [] None ''No custody history found for this IIC ID''
                 (Some (Debug (length page)
                          [(''hasFieldResponses'', strIncludes page ''fieldResponses''),
                           (''hasIdocName'', strIncludes page ''idoc_name''),
                           (''hasControlId'',
                            strIncludes page ''b53c668f-4840-4868-8182-1c0ac0c19dc6'')]))),
            [GetIicInfo iicid])"
    and "inlineExtract e page = Array data \<Longrightarrow> data \<noteq> [] \<Longrightarrow>
         (holdsNull data \<longrightarrow>
            inlineHandler e iicid =
              (HttpResponse 500
                 (ErrorBody ''Failed to fetch custody history'' (Some TypeErrorMessage)),
               [GetIicInfo iicid])) \<and>
         (\<not> holdsNull data \<longrightarrow>
            (\<exists>result. inlineHandler e iicid =
                 (HttpResponse 200 (TimelineBody result), [GetIicInfo iicid]) \<and>
               totalRecords result = length data))"
    and "inlineExtract e page = NotArray False \<Longrightarrow>
         inlineHandler e iicid =
           (HttpResponse 500
              (ErrorBody ''Failed to fetch custody history'' (Some TypeErrorMessage)),
            [GetIicInfo iicid])"
  using assms processElements_outcome [of data "dateParse e" "clock e" iicid]
  by (auto simp: inlineHandler_def Let_def)

lemma strategies_page_ok:
  assumes "validIicId iicid" and "pageFetch e iicid = Reply True st page"
  shows "extractCustodyData e page = None \<or> extractCustodyData e page = Some [] \<Longrightarrow>
         strategiesHandler e iicid =
           (HttpResponse 200
              (NoRecordsBody iicid [] None ''No custody history found for this IIC ID'' None),
            [GetIicInfo iicid])"
    and "extractCustodyData e page = Some data \<Longrightarrow> data \<noteq> [] \<Longrightarrow>
         (holdsNull data \<longrightarrow>
            strategiesHandler e iicid =
              (HttpResponse 500
                 (ErrorBody ''Failed to fetch custody history'' (Some TypeErrorMessage)),
               [GetIicInfo iicid])) \<and>
         (\<not> holdsNull data \<longrightarrow>
            (\<exists>result. strategiesHandler e iicid =
                 (HttpResponse 200 (TimelineBody result), [GetIicInfo iicid]) \<and>
               totalRecords result = length data))"
  using assms processElements_outcome [of data "dateParse e" "clock e" iicid]
  by (auto simp: strategiesHandler_def Let_def)

lemma extractCustodyData_failures:
  "controlIdStrategy e page = None \<Longrightarrow> arraysStrategy e page = None \<Longrightarrow>
   escapedStrategy e page = None \<Longrightarrow> extractCustodyData e page = None"
  by (simp add: extractCustodyData_def)

lemma single_pass_outcomes:
  assumes "validIicId iicid" and "pageFetch e iicid = Reply True st page"
  shows "singlePassMatch (regexMatch e) page = None \<Longrightarrow>
         singlePassHandler e iicid =
           (HttpResponse 200
              (NoRecordsBody iicid [] None
                 ''No custody history found. The VISOR page may have changed format.''
                 (Some (Debug (length page)
                          [(''hasIdocName'', strIncludes page ''idoc_name''),
                           (''hasGridResponse'', strIncludes page ''gridResponse'')]))),
            [GetIicInfo iicid])"
    and "singlePassMatch (regexMatch e) page = Some m \<Longrightarrow> jsonParse e m = Inl msg \<Longrightarrow>
         singlePassHandler e iicid =
           (HttpResponse 500 (ErrorBody ''Failed to parse custody data'' (Some (Message msg))),
            [GetIicInfo iicid])"
    and "singlePassMatch (regexMatch e) page = Some m \<Longrightarrow> jsonParse e m = Inr data \<Longrightarrow>
         (holdsNull data \<longrightarrow>
            singlePassHandler e iicid =
              (HttpResponse 500
                 (ErrorBody ''Failed to fetch custody history'' (Some TypeErrorMessage)),
               [GetIicInfo iicid])) \<and>
         (\<not> holdsNull data \<longrightarrow>
            (\<exists>result. singlePassHandler e iicid =
                 (HttpResponse 200 (TimelineBody result), [GetIicInfo iicid]) \<and>
               totalRecords result = length data))"
  using assms processElements_outcome [of data "dateParse e" "clock e" iicid]
  by (auto simp: singlePassHandler_def)


subsection \<open>The example documents, evaluated\<close>

lemma badjson_facts:
  "apiFetch envBadJson sampleId = Reply False 404 (NotJson ''Unexpected token < in JSON at position 0'')"
  "pageFetch envBadJson sampleId = Reply True 200 htmlBadJson"
  "singlePassMatch (regexMatch envBadJson) htmlBadJson = Some capBadJson"
  "jsonParse envBadJson capBadJson = Inl ''Unexpected token } in JSON at position 18''"
  "list_all (\<lambda>q. strategyFails (regexMatch envBadJson) (jsonParse envBadJson) q htmlBadJson) patterns"
  "strategyFails (regexMatch envBadJson) (jsonParse envBadJson) DataArrayWithName htmlBadJson"
  "regexMatch envBadJson FieldResponsesSection htmlBadJson = None"
  "regexMatch envBadJson IdocNameArray htmlBadJson = Some capBadJsonInner"
  "jsonParse envBadJson (''['' @ capBadJsonInner @ '']'') =
     Inl ''Unexpected token } in JSON at position 18''"
  "controlIdStrategy envBadJson htmlBadJson = None"
  "arraysStrategy envBadJson htmlBadJson = None"
  "escapedStrategy envBadJson htmlBadJson = None"
  by code_simp+

lemma nomatch_facts:
  "pageFetch envNoMatch sampleId = Reply True 200 htmlNoMatch"
  "singlePassMatch (regexMatch envNoMatch) htmlNoMatch = None"
  by code_simp+

lemma nullelement_facts:
  "apiFetch envNullElement sampleId = Rejected ''request failed''"
  "pageFetch envNullElement sampleId = Reply True 200 htmlNullElement"
  "extractCustodyDataFromHTML (regexMatch envNullElement) (jsonParse envNullElement)
     htmlNullElement = Some [Some recNamed, None]"
  "extractCustodyData envNullElement htmlNullElement = Some [Some recNamed, None]"
  "singlePassMatch (regexMatch envNullElement) htmlNullElement = Some capNullElement"
  "jsonParse envNullElement capNullElement = Inr [Some recNamed, None]"
  by code_simp+

lemma holdsNull_examples:
  "holdsNull [Some recNamed, None]" "holdsNull [None]"
  "\<not> holdsNull [Some recNamed, Some recBare]"
  "\<not> holdsNull [Some recNamed]" "\<not> holdsNull [Some recBare]"
  by (simp_all add: holdsNull_def)

lemma mixed_facts:
  "apiFetch envMixed sampleId = Rejected ''request failed''"
  "pageFetch envMixed sampleId = Reply True 200 htmlMixed"
  by (simp_all add: envMixed_def)

lemma emptygrid_facts:
  "pageFetch envEmptyGrid sampleId = Reply True 200 htmlEmptyGrid"
  "sectionData envEmptyGrid htmlEmptyGrid = Array []"
  "fallbackData envEmptyGrid htmlEmptyGrid = Array [Some recNamed]"
  by code_simp+

lemma gridnull_facts:
  "pageFetch envGridNull sampleId = Reply True 200 htmlGridNull"
  "sectionData envGridNull htmlGridNull = Array [None]"
  by code_simp+

lemma datastring_facts:
  "pageFetch envDataString sampleId = Reply True 200 htmlDataString"
  "sectionData envDataString htmlDataString = NotArray False"
  "inlineExtract envDataString htmlDataString = NotArray False"
  by code_simp+

lemma namedarray_facts:
  "pageFetch envNamedArray sampleId = Reply True 200 htmlNamedArray"
  "sectionData envNamedArray htmlNamedArray = Falsy"
  "fallbackData envNamedArray htmlNamedArray = Array [Some recNamed]"
  by code_simp+

lemma valueonly_page:
  "pageFetch envValueOnly sampleId = Reply True 200 htmlValueOnly"
  "extractCustodyData envValueOnly htmlValueOnly = Some [Some recBare]"
  by code_simp+

lemma mixed_single_pass:
  "singlePassMatch (regexMatch envMixed) htmlMixed = Some capMixed"
  "jsonParse envMixed capMixed = Inr [Some recNamed, Some recBare]"
  by code_simp+

subsection \<open>Extraction failures\<close>

text \<open>
  Claim C7, as amended. In \<open>extractCustodyDataFromHTML\<close> a pattern that fails is skipped
  and the next is tried, and when all fail the result is null. The direct API call
  answers only when it finds the custody grid with an array of data that holds no null;
  in every other case the handler goes on to the page. For a valid identifier and a page
  fetched with an ok status, the handler that calls \<open>processCustodyData\<close> answers
  \<open>{iicId, records: [], totalRecords: 0, message}\<close> with status 200 when every pattern
  fails; when an array was extracted it answers 200 with a timeline of as many records as
  the array has elements, unless the array holds null, which makes
  \<open>processCustodyData\<close> throw and the answer HTTP 500. In the
  inline handler the field responses yield nothing when their pattern does not match,
  the capture does not parse, no field response of the custody grid is found (or a null
  one is met on the way) or its data is falsy; then the fallback pattern is tried, which
  yields nothing when it does not match or its capture does not parse. An array found in
  the field responses, also an empty one, is taken and the fallback is not tried. The
  inline handler answers \<open>{iicId, records: [], message, debug}\<close> with status 200 when
  nothing or an empty array was extracted, the timeline for an array of objects, and HTTP
  500 for an array that holds null and for data that is not an array. The handler of
  \<open>extractCustodyData\<close> answers \<open>{iicId, records: [], message}\<close> with status 200
  when its three strategies yield nothing or an empty array, the timeline for an array of
  objects and HTTP 500 for an array that holds null. The single-pass handler answers
  \<open>{iicId, records: [], message, debug}\<close> when none of its patterns matches, answers
  HTTP 500 with \<open>error: 'Failed to parse custody data'\<close> when the capture of its first
  matching pattern does not parse, and otherwise the timeline, or HTTP 500 when the
  parsed array holds null.
\<close>
theorem extraction_failure_outcomes:
  "(strategyFails rx jp p html \<longrightarrow>
      extractLoop rx jp (p # ps) html = extractLoop rx jp ps html)
   \<and> ((\<forall>q\<in>set patterns. strategyFails rx jp q html) \<longrightarrow>
        extractCustodyDataFromHTML rx jp html = None)
   \<and> (apiStrategy e iicid = None \<longleftrightarrow>
        \<not> (\<exists>st' frs sub data.
              apiFetch e iicid = Reply True st' (ApiData (Array frs)) \<and>
              findSubgrid frs = Inr (Some sub) \<and> gridResponse sub = Some (Array data) \<and>
              \<not> holdsNull data))
   \<and> (validIicId iicid \<longrightarrow> apiStrategy e iicid = None \<longrightarrow>
        pageFetch e iicid = Reply True st page \<longrightarrow>
          ((\<forall>q\<in>set patterns. strategyFails (regexMatch e) (jsonParse e) q page) \<longrightarrow>
             custodyHistoryHandler e iicid =
               (HttpResponse 200
                  (NoRecordsBody iicid [] (Some 0)
                     ''No custody history found for this IIC ID'' None),
                [PostFormFieldValues iicid, GetIicInfo iicid])) \<and>
          (\<forall>data. extractCustodyDataFromHTML (regexMatch e) (jsonParse e) page = Some data \<longrightarrow>
             (holdsNull data \<longrightarrow>
                custodyHistoryHandler e iicid =
                  (HttpResponse 500
                     (ErrorBody ''Failed to fetch custody history'' (Some TypeErrorMessage)),
                   [PostFormFieldValues iicid, GetIicInfo iicid])) \<and>
             (\<not> holdsNull data \<longrightarrow>
                (\<exists>result. custodyHistoryHandler e iicid =
                     (HttpResponse 200 (TimelineBody result), [PostFormFieldValues iicid, GetIicInfo iicid]) \<and>
                   totalRecords result = length data))))
   \<and> ((regexMatch e FieldResponsesSection page = None \<or>
        (\<exists>m msg. regexMatch e FieldResponsesSection page = Some m \<and>
                  jsonParseFieldResponses e m = Inl msg) \<or>
        (\<exists>m frs. regexMatch e FieldResponsesSection page = Some m \<and>
                  jsonParseFieldResponses e m = Inr frs \<and>
                  (findSubgrid frs = Inl TypeError \<or> findSubgrid frs = Inr None \<or>
                   (\<exists>sub. findSubgrid frs = Inr (Some sub) \<and>
                          gridResponse sub = Some Falsy)))) \<longrightarrow>
       sectionData e page = Falsy)
   \<and> ((regexMatch e IdocNameArray page = None \<or>
        (\<exists>m msg. regexMatch e IdocNameArray page = Some m \<and>
                  jsonParse e (''['' @ m @ '']'') = Inl msg)) \<longrightarrow>
       fallbackData e page = Falsy)
   \<and> (sectionData e page = Falsy \<longrightarrow> inlineExtract e page = fallbackData e page)
   \<and> (\<forall>data. sectionData e page = Array data \<longrightarrow> inlineExtract e page = Array data)
   \<and> (validIicId iicid \<longrightarrow> pageFetch e iicid = Reply True st page \<longrightarrow>
        (inlineExtract e page = Falsy \<or> inlineExtract e page = Array [] \<or>
         inlineExtract e page = NotArray True \<longrightarrow>
           inlineHandler e iicid =
              (HttpResponse 200
                 (NoRecordsBody iicid [] None ''No custody history found for this IIC ID''
                    (Some (Debug (length page)
                             [(''hasFieldResponses'', strIncludes page ''fieldResponses''),
                              (''hasIdocName'', strIncludes page ''idoc_name''),
                              (''hasControlId'',
                               strIncludes page ''b53c668f-4840-4868-8182-1c0ac0c19dc6'')]))),
               [GetIicInfo iicid])) \<and>
        (\<forall>data. inlineExtract e page = Array data \<longrightarrow> data \<noteq> [] \<longrightarrow>
           (holdsNull data \<longrightarrow>
              inlineHandler e iicid =
                (HttpResponse 500
                   (ErrorBody ''Failed to fetch custody history'' (Some TypeErrorMessage)),
                 [GetIicInfo iicid])) \<and>
           (\<not> holdsNull data \<longrightarrow>
              (\<exists>result. inlineHandler e iicid =
                   (HttpResponse 200 (TimelineBody result), [GetIicInfo iicid]) \<and>
                 totalRecords result = length data))) \<and>
        (inlineExtract e page = NotArray False \<longrightarrow>
           inlineHandler e iicid =
              (HttpResponse 500
                 (ErrorBody ''Failed to fetch custody history'' (Some TypeErrorMessage)),
               [GetIicInfo iicid])))
   \<and> (controlIdStrategy e page = None \<longrightarrow> arraysStrategy e page = None \<longrightarrow>
        escapedStrategy e page = None \<longrightarrow> extractCustodyData e page = None)
   \<and> (validIicId iicid \<longrightarrow> pageFetch e iicid = Reply True st page \<longrightarrow>
        (extractCustodyData e page = None \<or> extractCustodyData e page = Some [] \<longrightarrow>
           strategiesHandler e iicid =
              (HttpResponse 200
                 (NoRecordsBody iicid [] None ''No custody history found for this IIC ID'' None),
               [GetIicInfo iicid])) \<and>
        (\<forall>data. extractCustodyData e page = Some data \<longrightarrow> data \<noteq> [] \<longrightarrow>
           (holdsNull data \<longrightarrow>
              strategiesHandler e iicid =
                (HttpResponse 500
                   (ErrorBody ''Failed to fetch custody history'' (Some TypeErrorMessage)),
                 [GetIicInfo iicid])) \<and>
           (\<not> holdsNull data \<longrightarrow>
              (\<exists>result. strategiesHandler e iicid =
                   (HttpResponse 200 (TimelineBody result), [GetIicInfo iicid]) \<and>
                 totalRecords result = length data))))
   \<and> (validIicId iicid \<longrightarrow> pageFetch e iicid = Reply True st page \<longrightarrow>
        (singlePassMatch (regexMatch e) page = None \<longrightarrow>
           singlePassHandler e iicid =
              (HttpResponse 200
                 (NoRecordsBody iicid [] None
                    ''No custody history found. The VISOR page may have changed format.''
                    (Some (Debug (length page)
                             [(''hasIdocName'', strIncludes page ''idoc_name''),
                              (''hasGridResponse'', strIncludes page ''gridResponse'')]))),
               [GetIicInfo iicid])) \<and>
        (\<forall>m msg. singlePassMatch (regexMatch e) page = Some m \<longrightarrow> jsonParse e m = Inl msg \<longrightarrow>
           singlePassHandler e iicid =
              (HttpResponse 500
                 (ErrorBody ''Failed to parse custody data'' (Some (Message msg))),
               [GetIicInfo iicid])) \<and>
        (\<forall>m data. singlePassMatch (regexMatch e) page = Some m \<longrightarrow> jsonParse e m = Inr data \<longrightarrow>
           (holdsNull data \<longrightarrow>
              singlePassHandler e iicid =
                (HttpResponse 500
                   (ErrorBody ''Failed to fetch custody history'' (Some TypeErrorMessage)),
                 [GetIicInfo iicid])) \<and>
           (\<not> holdsNull data \<longrightarrow>
              (\<exists>result. singlePassHandler e iicid =
                   (HttpResponse 200 (TimelineBody result), [GetIicInfo iicid]) \<and>
                 totalRecords result = length data))))"
proof -
  have c1: "(strategyFails rx jp p html \<longrightarrow>
      extractLoop rx jp (p # ps) html = extractLoop rx jp ps html)"
    using extractLoop_step [of rx jp p html ps] by blast
  have c2: "((\<forall>q\<in>set patterns. strategyFails rx jp q html) \<longrightarrow>
        extractCustodyDataFromHTML rx jp html = None)"
    by (simp only: extract_None_iff simp_thms)
  have c3: "(apiStrategy e iicid = None \<longleftrightarrow>
        \<not> (\<exists>st' frs sub data.
              apiFetch e iicid = Reply True st' (ApiData (Array frs)) \<and>
              findSubgrid frs = Inr (Some sub) \<and> gridResponse sub = Some (Array data) \<and>
              \<not> holdsNull data))"
    by (rule apiStrategy_None_iff)
  have c4: "(validIicId iicid \<longrightarrow> apiStrategy e iicid = None \<longrightarrow>
        pageFetch e iicid = Reply True st page \<longrightarrow>
          ((\<forall>q\<in>set patterns. strategyFails (regexMatch e) (jsonParse e) q page) \<longrightarrow>
             custodyHistoryHandler e iicid =
               (HttpResponse 200
                  (NoRecordsBody iicid [] (Some 0)
                     ''No custody history found for this IIC ID'' None),
                [PostFormFieldValues iicid, GetIicInfo iicid])) \<and>
          (\<forall>data. extractCustodyDataFromHTML (regexMatch e) (jsonParse e) page = Some data \<longrightarrow>
             (holdsNull data \<longrightarrow>
                custodyHistoryHandler e iicid =
                  (HttpResponse 500
                     (ErrorBody ''Failed to fetch custody history'' (Some TypeErrorMessage)),
                   [PostFormFieldValues iicid, GetIicInfo iicid])) \<and>
             (\<not> holdsNull data \<longrightarrow>
                (\<exists>result. custodyHistoryHandler e iicid =
                     (HttpResponse 200 (TimelineBody result), [PostFormFieldValues iicid, GetIicInfo iicid]) \<and>
                   totalRecords result = length data))))"
    using server_page_ok [of iicid e st page] by (simp only: extract_None_iff) blast
  have c5: "((regexMatch e FieldResponsesSection page = None \<or>
        (\<exists>m msg. regexMatch e FieldResponsesSection page = Some m \<and>
                  jsonParseFieldResponses e m = Inl msg) \<or>
        (\<exists>m frs. regexMatch e FieldResponsesSection page = Some m \<and>
                  jsonParseFieldResponses e m = Inr frs \<and>
                  (findSubgrid frs = Inl TypeError \<or> findSubgrid frs = Inr None \<or>
                   (\<exists>sub. findSubgrid frs = Inr (Some sub) \<and>
                          gridResponse sub = Some Falsy)))) \<longrightarrow>
       sectionData e page = Falsy)"
    using sectionData_failures [of e page] by blast
  have c6: "((regexMatch e IdocNameArray page = None \<or>
        (\<exists>m msg. regexMatch e IdocNameArray page = Some m \<and>
                  jsonParse e (''['' @ m @ '']'') = Inl msg)) \<longrightarrow>
       fallbackData e page = Falsy)"
    using fallbackData_failures [of e page] by blast
  have c7: "(sectionData e page = Falsy \<longrightarrow> inlineExtract e page = fallbackData e page)"
    by (simp add: inlineExtract_def)
  have c8: "(\<forall>data. sectionData e page = Array data \<longrightarrow> inlineExtract e page = Array data)"
    by (simp add: inlineExtract_def)
  have c9: "(validIicId iicid \<longrightarrow> pageFetch e iicid = Reply True st page \<longrightarrow>
        (inlineExtract e page = Falsy \<or> inlineExtract e page = Array [] \<or>
         inlineExtract e page = NotArray True \<longrightarrow>
           inlineHandler e iicid =
              (HttpResponse 200
                 (NoRecordsBody iicid [] None ''No custody history found for this IIC ID''
                    (Some (Debug (length page)
                             [(''hasFieldResponses'', strIncludes page ''fieldResponses''),
                              (''hasIdocName'', strIncludes page ''idoc_name''),
                              (''hasControlId'',
                               strIncludes page ''b53c668f-4840-4868-8182-1c0ac0c19dc6'')]))),
               [GetIicInfo iicid])) \<and>
        (\<forall>data. inlineExtract e page = Array data \<longrightarrow> data \<noteq> [] \<longrightarrow>
           (holdsNull data \<longrightarrow>
              inlineHandler e iicid =
                (HttpResponse 500
                   (ErrorBody ''Failed to fetch custody history'' (Some TypeErrorMessage)),
                 [GetIicInfo iicid])) \<and>
           (\<not> holdsNull data \<longrightarrow>
              (\<exists>result. inlineHandler e iicid =
                   (HttpResponse 200 (TimelineBody result), [GetIicInfo iicid]) \<and>
                 totalRecords result = length data))) \<and>
        (inlineExtract e page = NotArray False \<longrightarrow>
           inlineHandler e iicid =
              (HttpResponse 500
                 (ErrorBody ''Failed to fetch custody history'' (Some TypeErrorMessage)),
               [GetIicInfo iicid])))"
    using inline_page_ok [of iicid e st page] by blast
  have c10: "(controlIdStrategy e page = None \<longrightarrow> arraysStrategy e page = None \<longrightarrow>
        escapedStrategy e page = None \<longrightarrow> extractCustodyData e page = None)"
    using extractCustodyData_failures [of e page] by blast
  have c11: "(validIicId iicid \<longrightarrow> pageFetch e iicid = Reply True st page \<longrightarrow>
        (extractCustodyData e page = None \<or> extractCustodyData e page = Some [] \<longrightarrow>
           strategiesHandler e iicid =
              (HttpResponse 200
                 (NoRecordsBody iicid [] None ''No custody history found for this IIC ID'' None),
               [GetIicInfo iicid])) \<and>
        (\<forall>data. extractCustodyData e page = Some data \<longrightarrow> data \<noteq> [] \<longrightarrow>
           (holdsNull data \<longrightarrow>
              strategiesHandler e iicid =
                (HttpResponse 500
                   (ErrorBody ''Failed to fetch custody history'' (Some TypeErrorMessage)),
                 [GetIicInfo iicid])) \<and>
           (\<not> holdsNull data \<longrightarrow>
              (\<exists>result. strategiesHandler e iicid =
                   (HttpResponse 200 (TimelineBody result), [GetIicInfo iicid]) \<and>
                 totalRecords result = length data))))"
    using strategies_page_ok [of iicid e st page] by blast
  have c12: "(validIicId iicid \<longrightarrow> pageFetch e iicid = Reply True st page \<longrightarrow>
        (singlePassMatch (regexMatch e) page = None \<longrightarrow>
           singlePassHandler e iicid =
              (HttpResponse 200
                 (NoRecordsBody iicid [] None
                    ''No custody history found. The VISOR page may have changed format.''
                    (Some (Debug (length page)
                             [(''hasIdocName'', strIncludes page ''idoc_name''),
                              (''hasGridResponse'', strIncludes page ''gridResponse'')]))),
               [GetIicInfo iicid])) \<and>
        (\<forall>m msg. singlePassMatch (regexMatch e) page = Some m \<longrightarrow> jsonParse e m = Inl msg \<longrightarrow>
           singlePassHandler e iicid =
              (HttpResponse 500
                 (ErrorBody ''Failed to parse custody data'' (Some (Message msg))),
               [GetIicInfo iicid])) \<and>
        (\<forall>m data. singlePassMatch (regexMatch e) page = Some m \<longrightarrow> jsonParse e m = Inr data \<longrightarrow>
           (holdsNull data \<longrightarrow>
              singlePassHandler e iicid =
                (HttpResponse 500
                   (ErrorBody ''Failed to fetch custody history'' (Some TypeErrorMessage)),
                 [GetIicInfo iicid])) \<and>
           (\<not> holdsNull data \<longrightarrow>
              (\<exists>result. singlePassHandler e iicid =
                   (HttpResponse 200 (TimelineBody result), [GetIicInfo iicid]) \<and>
                 totalRecords result = length data))))"
    using single_pass_outcomes [of iicid e st page] by blast
  show ?thesis
    by (intro conjI c1 c2 c3 c4 c5 c6 c7 c8 c9 c10 c11 c12)
qed

theorem extraction_failure_outcomes_witness:
  "validIicId sampleId \<and>
   strategyFails (regexMatch envBadJson) (jsonParse envBadJson) DataArrayWithName htmlBadJson \<and>
   extractLoop (regexMatch envBadJson) (jsonParse envBadJson)
       [DataArrayWithName, FieldResponsesData, EscapedValueData] htmlBadJson =
     extractLoop (regexMatch envBadJson) (jsonParse envBadJson)
       [FieldResponsesData, EscapedValueData] htmlBadJson \<and>
   list_all (\<lambda>q. strategyFails (regexMatch envBadJson) (jsonParse envBadJson) q htmlBadJson)
     patterns \<and>
   extractCustodyDataFromHTML (regexMatch envBadJson) (jsonParse envBadJson) htmlBadJson = None \<and>
   apiStrategy envBadJson sampleId = None \<and>
   pageFetch envBadJson sampleId = Reply True 200 htmlBadJson \<and>
   custodyHistoryHandler envBadJson sampleId =
     (HttpResponse 200
        (NoRecordsBody sampleId [] (Some 0) ''No custody history found for this IIC ID'' None),
      [PostFormFieldValues sampleId, GetIicInfo sampleId]) \<and>
   extractCustodyDataFromHTML (regexMatch envNullElement) (jsonParse envNullElement)
     htmlNullElement = Some [Some recNamed, None] \<and>
   custodyHistoryHandler envNullElement sampleId =
     (HttpResponse 500 (ErrorBody ''Failed to fetch custody history'' (Some TypeErrorMessage)),
      [PostFormFieldValues sampleId, GetIicInfo sampleId]) \<and>
   status (fst (custodyHistoryHandler envMixed sampleId)) = 200 \<and>
   sectionData envBadJson htmlBadJson = Falsy \<and>
   fallbackData envBadJson htmlBadJson = Falsy \<and>
   inlineExtract envBadJson htmlBadJson = Falsy \<and>
   status (fst (inlineHandler envBadJson sampleId)) = 200 \<and>
   sectionData envEmptyGrid htmlEmptyGrid = Array [] \<and>
   fallbackData envEmptyGrid htmlEmptyGrid = Array [Some recNamed] \<and>
   inlineExtract envEmptyGrid htmlEmptyGrid = Array [] \<and>
   status (fst (inlineHandler envEmptyGrid sampleId)) = 200 \<and>
   inlineExtract envGridNull htmlGridNull = Array [None] \<and>
   inlineHandler envGridNull sampleId =
     (HttpResponse 500 (ErrorBody ''Failed to fetch custody history'' (Some TypeErrorMessage)), [GetIicInfo sampleId]) \<and>
   extractCustodyData envBadJson htmlBadJson = None \<and>
   strategiesHandler envBadJson sampleId =
     (HttpResponse 200
        (NoRecordsBody sampleId [] None ''No custody history found for this IIC ID'' None),
      [GetIicInfo sampleId]) \<and>
   strategiesHandler envNullElement sampleId =
     (HttpResponse 500 (ErrorBody ''Failed to fetch custody history'' (Some TypeErrorMessage)), [GetIicInfo sampleId]) \<and>
   singlePassMatch (regexMatch envBadJson) htmlBadJson = Some capBadJson \<and>
   singlePassHandler envBadJson sampleId =
     (HttpResponse 500
        (ErrorBody ''Failed to parse custody data''
           (Some (Message ''Unexpected token } in JSON at position 18''))),
      [GetIicInfo sampleId]) \<and>
   singlePassMatch (regexMatch envNoMatch) htmlNoMatch = None \<and>
   status (fst (singlePassHandler envNoMatch sampleId)) = 200 \<and>
   singlePassHandler envNullElement sampleId =
     (HttpResponse 500 (ErrorBody ''Failed to fetch custody history'' (Some TypeErrorMessage)), [GetIicInfo sampleId]) \<and>
   inlineExtract envDataString htmlDataString = NotArray False \<and>
   inlineHandler envDataString sampleId =
     (HttpResponse 500 (ErrorBody ''Failed to fetch custody history'' (Some TypeErrorMessage)), [GetIicInfo sampleId]) \<and>
   inlineExtract envNamedArray htmlNamedArray = Array [Some recNamed] \<and>
   status (fst (inlineHandler envNamedArray sampleId)) = 200 \<and>
   status (fst (strategiesHandler envValueOnly sampleId)) = 200 \<and>
   status (fst (singlePassHandler envMixed sampleId)) = 200"
proof -
  note d = extraction_failure_outcomes
     [where e = envDataString and iicid = sampleId and st = 200 and page = htmlDataString
        and rx = "regexMatch envDataString" and jp = "jsonParse envDataString" and html = htmlDataString
        and p = DataArrayWithName and ps = "[FieldResponsesData, EscapedValueData]"]
  note a = extraction_failure_outcomes
     [where e = envNamedArray and iicid = sampleId and st = 200 and page = htmlNamedArray
        and rx = "regexMatch envNamedArray" and jp = "jsonParse envNamedArray" and html = htmlNamedArray
        and p = DataArrayWithName and ps = "[FieldResponsesData, EscapedValueData]"]
  note o = extraction_failure_outcomes
     [where e = envValueOnly and iicid = sampleId and st = 200 and page = htmlValueOnly
        and rx = "regexMatch envValueOnly" and jp = "jsonParse envValueOnly" and html = htmlValueOnly
        and p = DataArrayWithName and ps = "[FieldResponsesData, EscapedValueData]"]
  note w = extraction_failure_outcomes
     [where e = envBadJson and iicid = sampleId and st = 200 and page = htmlBadJson
        and rx = "regexMatch envBadJson" and jp = "jsonParse envBadJson" and html = htmlBadJson
        and p = DataArrayWithName and ps = "[FieldResponsesData, EscapedValueData]"]
  note n = extraction_failure_outcomes
     [where e = envNullElement and iicid = sampleId and st = 200 and page = htmlNullElement
        and rx = "regexMatch envNullElement" and jp = "jsonParse envNullElement" and html = htmlNullElement
        and p = DataArrayWithName and ps = "[FieldResponsesData, EscapedValueData]"]
  note m = extraction_failure_outcomes
     [where e = envMixed and iicid = sampleId and st = 200 and page = htmlMixed
        and rx = "regexMatch envMixed" and jp = "jsonParse envMixed" and html = htmlMixed
        and p = DataArrayWithName and ps = "[FieldResponsesData, EscapedValueData]"]
  note g = extraction_failure_outcomes
     [where e = envEmptyGrid and iicid = sampleId and st = 200 and page = htmlEmptyGrid
        and rx = "regexMatch envEmptyGrid" and jp = "jsonParse envEmptyGrid" and html = htmlEmptyGrid
        and p = DataArrayWithName and ps = "[FieldResponsesData, EscapedValueData]"]
  note h = extraction_failure_outcomes
     [where e = envGridNull and iicid = sampleId and st = 200 and page = htmlGridNull
        and rx = "regexMatch envGridNull" and jp = "jsonParse envGridNull" and html = htmlGridNull
        and p = DataArrayWithName and ps = "[FieldResponsesData, EscapedValueData]"]
  note v = extraction_failure_outcomes
     [where e = envNoMatch and iicid = sampleId and st = 200 and page = htmlNoMatch
        and rx = "regexMatch envNoMatch" and jp = "jsonParse envNoMatch" and html = htmlNoMatch
        and p = DataArrayWithName and ps = "[FieldResponsesData, EscapedValueData]"]
  note valid = sampleId_valid
  note fail1 = badjson_facts(6)
  have step: "extractLoop (regexMatch envBadJson) (jsonParse envBadJson)
       [DataArrayWithName, FieldResponsesData, EscapedValueData] htmlBadJson =
     extractLoop (regexMatch envBadJson) (jsonParse envBadJson)
       [FieldResponsesData, EscapedValueData] htmlBadJson"
    using w [THEN conjunct1] fail1 by (rule mp)
  note allfail = badjson_facts(5)
  have fails: "\<forall>q\<in>set patterns. strategyFails (regexMatch envBadJson) (jsonParse envBadJson) q htmlBadJson"
    using allfail by (simp only: list_all_iff)
  have exnone: "extractCustodyDataFromHTML (regexMatch envBadJson) (jsonParse envBadJson) htmlBadJson = None"
    using w [THEN conjunct2, THEN conjunct1] fails by (rule mp)
  have api: "apiStrategy envBadJson sampleId = None"
    using w [THEN conjunct2, THEN conjunct2, THEN conjunct1] by (simp add: badjson_facts(1))
  note page = badjson_facts(2)
  have srv: "custodyHistoryHandler envBadJson sampleId =
     (HttpResponse 200
        (NoRecordsBody sampleId [] (Some 0) ''No custody history found for this IIC ID'' None),
      [PostFormFieldValues sampleId, GetIicInfo sampleId])"
    using w [THEN conjunct2, THEN conjunct2, THEN conjunct2, THEN conjunct1] valid api page fails by blast
  have napi: "apiStrategy envNullElement sampleId = None"
    using n [THEN conjunct2, THEN conjunct2, THEN conjunct1] by (simp add: nullelement_facts(1))
  note nullex = nullelement_facts(3)
  have srvnull: "custodyHistoryHandler envNullElement sampleId =
     (HttpResponse 500 (ErrorBody ''Failed to fetch custody history'' (Some TypeErrorMessage)),
      [PostFormFieldValues sampleId, GetIicInfo sampleId])"
    using n [THEN conjunct2, THEN conjunct2, THEN conjunct2, THEN conjunct1, rule_format, OF valid napi nullelement_facts(2), THEN conjunct2,
                      rule_format, OF nullex]
    by (simp add: holdsNull_examples)
  have mapi: "apiStrategy envMixed sampleId = None"
    using m [THEN conjunct2, THEN conjunct2, THEN conjunct1] by (simp add: mixed_facts(1))
  have srvmixed: "status (fst (custodyHistoryHandler envMixed sampleId)) = 200"
    using m [THEN conjunct2, THEN conjunct2, THEN conjunct2, THEN conjunct1, rule_format, OF valid mapi mixed_facts(2), THEN conjunct2,
                      rule_format, OF mixed_extract]
    by (auto simp: holdsNull_examples)
  have sec: "sectionData envBadJson htmlBadJson = Falsy"
    using w [THEN conjunct2, THEN conjunct2, THEN conjunct2, THEN conjunct2, THEN conjunct1] badjson_facts(7) by blast
  have fb: "fallbackData envBadJson htmlBadJson = Falsy"
    using w [THEN conjunct2, THEN conjunct2, THEN conjunct2, THEN conjunct2, THEN conjunct2, THEN conjunct1] badjson_facts(8) badjson_facts(9) by blast
  have inx: "inlineExtract envBadJson htmlBadJson = Falsy"
    using w [THEN conjunct2, THEN conjunct2, THEN conjunct2, THEN conjunct2, THEN conjunct2, THEN conjunct2, THEN conjunct1] sec fb by simp
  have inl: "status (fst (inlineHandler envBadJson sampleId)) = 200"
    using w [THEN conjunct2, THEN conjunct2, THEN conjunct2, THEN conjunct2, THEN conjunct2, THEN conjunct2, THEN conjunct2, THEN conjunct2, THEN conjunct1, rule_format, OF valid page, THEN conjunct1] inx by simp
  note gsec = emptygrid_facts(2)
  note gfb = emptygrid_facts(3)
  have ginx: "inlineExtract envEmptyGrid htmlEmptyGrid = Array []"
    using g [THEN conjunct2, THEN conjunct2, THEN conjunct2, THEN conjunct2, THEN conjunct2, THEN conjunct2, THEN conjunct2, THEN conjunct1] gsec by blast
  have ginl: "status (fst (inlineHandler envEmptyGrid sampleId)) = 200"
    using g [THEN conjunct2, THEN conjunct2, THEN conjunct2, THEN conjunct2, THEN conjunct2, THEN conjunct2, THEN conjunct2, THEN conjunct2, THEN conjunct1, rule_format, OF valid emptygrid_facts(1), THEN conjunct1] ginx by simp
  have hinx: "inlineExtract envGridNull htmlGridNull = Array [None]"
    using h [THEN conjunct2, THEN conjunct2, THEN conjunct2, THEN conjunct2, THEN conjunct2, THEN conjunct2, THEN conjunct2, THEN conjunct1] gridnull_facts(2) by blast
  have hinl: "inlineHandler envGridNull sampleId =
     (HttpResponse 500 (ErrorBody ''Failed to fetch custody history'' (Some TypeErrorMessage)), [GetIicInfo sampleId])"
    using h [THEN conjunct2, THEN conjunct2, THEN conjunct2, THEN conjunct2, THEN conjunct2, THEN conjunct2, THEN conjunct2, THEN conjunct2, THEN conjunct1, rule_format, OF valid gridnull_facts(1), THEN conjunct2, THEN conjunct1,
                      rule_format, OF hinx]
    by (simp add: holdsNull_examples)
  have ecd: "extractCustodyData envBadJson htmlBadJson = None"
    using w [THEN conjunct2, THEN conjunct2, THEN conjunct2, THEN conjunct2, THEN conjunct2, THEN conjunct2, THEN conjunct2, THEN conjunct2, THEN conjunct2, THEN conjunct1] badjson_facts(10) badjson_facts(11) badjson_facts(12) by blast
  have sth: "strategiesHandler envBadJson sampleId =
     (HttpResponse 200
        (NoRecordsBody sampleId [] None ''No custody history found for this IIC ID'' None),
      [GetIicInfo sampleId])"
    using w [THEN conjunct2, THEN conjunct2, THEN conjunct2, THEN conjunct2, THEN conjunct2, THEN conjunct2, THEN conjunct2, THEN conjunct2, THEN conjunct2, THEN conjunct2, THEN conjunct1, rule_format, OF valid page, THEN conjunct1] ecd by simp
  have sthnull: "strategiesHandler envNullElement sampleId =
     (HttpResponse 500 (ErrorBody ''Failed to fetch custody history'' (Some TypeErrorMessage)), [GetIicInfo sampleId])"
    using n [THEN conjunct2, THEN conjunct2, THEN conjunct2, THEN conjunct2, THEN conjunct2, THEN conjunct2, THEN conjunct2, THEN conjunct2, THEN conjunct2, THEN conjunct2, THEN conjunct1, rule_format, OF valid nullelement_facts(2), THEN conjunct2,
                       rule_format, OF nullelement_facts(4)]
    by (simp add: holdsNull_examples)
  note spm = badjson_facts(3)
  have sp: "singlePassHandler envBadJson sampleId =
     (HttpResponse 500
        (ErrorBody ''Failed to parse custody data''
           (Some (Message ''Unexpected token } in JSON at position 18''))),
      [GetIicInfo sampleId])"
    using w [THEN conjunct2, THEN conjunct2, THEN conjunct2, THEN conjunct2, THEN conjunct2, THEN conjunct2, THEN conjunct2, THEN conjunct2, THEN conjunct2, THEN conjunct2, THEN conjunct2, rule_format, OF valid page, THEN conjunct2, THEN conjunct1,
                       rule_format, OF spm badjson_facts(4)] .
  note spnone = nomatch_facts(2)
  have sp2: "status (fst (singlePassHandler envNoMatch sampleId)) = 200"
    using v [THEN conjunct2, THEN conjunct2, THEN conjunct2, THEN conjunct2, THEN conjunct2, THEN conjunct2, THEN conjunct2, THEN conjunct2, THEN conjunct2, THEN conjunct2, THEN conjunct2, rule_format, OF valid nomatch_facts(1), THEN conjunct1] spnone by simp
  have spnull: "singlePassHandler envNullElement sampleId =
     (HttpResponse 500 (ErrorBody ''Failed to fetch custody history'' (Some TypeErrorMessage)), [GetIicInfo sampleId])"
    using n [THEN conjunct2, THEN conjunct2, THEN conjunct2, THEN conjunct2, THEN conjunct2, THEN conjunct2, THEN conjunct2, THEN conjunct2, THEN conjunct2, THEN conjunct2, THEN conjunct2, rule_format, OF valid nullelement_facts(2), THEN conjunct2, THEN conjunct2,
                       rule_format, OF nullelement_facts(5) nullelement_facts(6)]
    by (simp add: holdsNull_examples)
  note dinx = datastring_facts(3)
  have dinl: "inlineHandler envDataString sampleId =
     (HttpResponse 500 (ErrorBody ''Failed to fetch custody history'' (Some TypeErrorMessage)), [GetIicInfo sampleId])"
    using d [THEN conjunct2, THEN conjunct2, THEN conjunct2, THEN conjunct2, THEN conjunct2, THEN conjunct2, THEN conjunct2, THEN conjunct2, THEN conjunct1, rule_format, OF valid datastring_facts(1), THEN conjunct2, THEN conjunct2,
             rule_format, OF dinx] .
  have ainx: "inlineExtract envNamedArray htmlNamedArray = Array [Some recNamed]"
    using a [THEN conjunct2, THEN conjunct2, THEN conjunct2, THEN conjunct2, THEN conjunct2, THEN conjunct2, THEN conjunct1] namedarray_facts(2) namedarray_facts(3) by simp
  have ainl: "status (fst (inlineHandler envNamedArray sampleId)) = 200"
    using a [THEN conjunct2, THEN conjunct2, THEN conjunct2, THEN conjunct2, THEN conjunct2, THEN conjunct2, THEN conjunct2, THEN conjunct2, THEN conjunct1, rule_format, OF valid namedarray_facts(1), THEN conjunct2, THEN conjunct1,
             rule_format, OF ainx]
    by (auto simp: holdsNull_examples)
  have osth: "status (fst (strategiesHandler envValueOnly sampleId)) = 200"
    using o [THEN conjunct2, THEN conjunct2, THEN conjunct2, THEN conjunct2, THEN conjunct2, THEN conjunct2, THEN conjunct2, THEN conjunct2, THEN conjunct2, THEN conjunct2, THEN conjunct1, rule_format, OF valid valueonly_page(1), THEN conjunct2,
             rule_format, OF valueonly_page(2)]
    by (auto simp: holdsNull_examples)
  have msp: "status (fst (singlePassHandler envMixed sampleId)) = 200"
    using m [THEN conjunct2, THEN conjunct2, THEN conjunct2, THEN conjunct2, THEN conjunct2, THEN conjunct2, THEN conjunct2, THEN conjunct2, THEN conjunct2, THEN conjunct2, THEN conjunct2, rule_format, OF valid mixed_facts(2), THEN conjunct2, THEN conjunct2,
             rule_format, OF mixed_single_pass(1) mixed_single_pass(2)]
    by (auto simp: holdsNull_examples)
  show ?thesis
    by (intro conjI valid fail1 step allfail exnone api page srv nullex srvnull srvmixed sec fb inx inl gsec gfb ginx ginl hinx hinl ecd sth sthnull spm sp spnone sp2 spnull
          dinx dinl ainx ainl osth msp)
qed

text \<open>
  Claim C7 as stated says that a parse error is never turned into an error response. In
  the single-pass handler, on the page \<open>htmlBadJson\<close>, it is: the answer is HTTP 500.
\<close>

theorem parse_failure_answers_500:
  "validIicId sampleId \<and>
   pageFetch envBadJson sampleId = Reply True 200 htmlBadJson \<and>
   singlePassMatch (regexMatch envBadJson) htmlBadJson = Some capBadJson \<and>
   jsonParse envBadJson capBadJson = Inl ''Unexpected token } in JSON at position 18'' \<and>
   singlePassHandler envBadJson sampleId =
     (HttpResponse 500
        (ErrorBody ''Failed to parse custody data''
           (Some (Message ''Unexpected token } in JSON at position 18''))),
      [GetIicInfo sampleId])"
  using sampleId_valid badjson_facts(2,3,4)
    single_pass_outcomes(2) [OF sampleId_valid badjson_facts(2) badjson_facts(3) badjson_facts(4)]
  by simp

end
